theory Spec2Isabelle
  imports Main "HOL-Library.AList" "HOL-Library.Sublist"
begin

section \<open>Python values, exceptions and the library the client calls\<close>

text \<open>
  The values the client handles: its arguments, the request parameters it builds and the
  decoded JSON it receives. A dict is an association list in insertion order with distinct
  keys; a tuple is modelled as a list. The type parameter \<open>'f\<close> is Python's float.
  Strings are lists of 8-bit characters, read as the code points below 256.
\<close>

datatype 'f pyval =
    PNone
  | PBool bool
  | PInt int
  | PFloat 'f
  | PStr string
  | PList "'f pyval list"
  | PDict "(string \<times> 'f pyval) list"

text \<open>
  The exceptions that can leave a method. \<open>ValueError\<close> and \<open>IndexError\<close> carry the message
  the source raises them with; \<open>LibValueError\<close> is the \<open>ValueError\<close> raised inside \<open>float()\<close>
  on malformed text, \<open>HTTPError\<close> the one of \<open>raise_for_status()\<close> with the status code.
\<close>

datatype error =
    TypeError
  | ValueError string
  | LibValueError
  | IndexError string
  | KeyError
  | AttributeError
  | JSONDecodeError
  | OverflowError
  | HTTPError nat

text \<open>One \<open>req.post(API_URL, headers=self._headers, data=data)\<close>: what was sent, together
  with the command and parameters the envelope was built from.\<close>

record 'f call =
  url :: string
  sent_headers :: "(string \<times> string) list"
  sent_data :: string
  rpc_method :: string
  rpc_params :: "'f pyval"

text \<open>The HTTP response: its status code and its body decoded as JSON (\<open>None\<close> when the body
  is not JSON, where \<open>response.json()\<close> raises).\<close>

datatype 'f http_response = HttpResponse (status_code: nat) (json_body: "'f pyval option")

text \<open>\<open>response.ok\<close> is false exactly when \<open>raise_for_status()\<close> raises.\<close>

definition response_ok :: "'f http_response \<Rightarrow> bool" where
  "response_ok r = (\<not> (400 \<le> status_code r \<and> status_code r < 600))"

text \<open>
  What the module imports and does not define: the string and float primitives of Python,
  \<open>json.dumps\<close>, \<open>hmac.new(...).hexdigest()\<close> with SHA-512, and the remote service behind
  \<open>requests.post\<close>, which answers the latest call knowing all the calls made so far.
\<close>

record 'f pylib =
  str_lower :: "string \<Rightarrow> string"
  str_upper :: "string \<Rightarrow> string"
  py_str :: "'f pyval \<Rightarrow> string"
  float_of_str :: "string \<Rightarrow> 'f option"
  float_of_int :: "int \<Rightarrow> 'f option"
  round8 :: "'f \<Rightarrow> 'f"
  float_less :: "'f \<Rightarrow> 'f \<Rightarrow> bool"
  format_8f :: "'f \<Rightarrow> string"
  json_dumps :: "'f pyval \<Rightarrow> string"
  hmac_sha512_hex :: "string \<Rightarrow> string \<Rightarrow> string"
  http_post :: "'f call list \<Rightarrow> 'f http_response"

subsection \<open>Built-in operations on values\<close>

fun is_str :: "'f pyval \<Rightarrow> bool" where
  "is_str (PStr s) = True"
| "is_str _ = False"

text \<open>\<open>len(v)\<close>: a \<open>TypeError\<close> on \<open>None\<close> and on numbers.\<close>

fun py_len :: "'f pyval \<Rightarrow> error + nat" where
  "py_len (PStr s) = Inr (length s)"
| "py_len (PList xs) = Inr (length xs)"
| "py_len (PDict kvs) = Inr (length kvs)"
| "py_len _ = Inl TypeError"

fun contains_str :: "string \<Rightarrow> string \<Rightarrow> bool" where
  "contains_str x [] = (x = [])"
| "contains_str x (c # cs) = (prefix x (c # cs) \<or> contains_str x cs)"

text \<open>\<open>x in v\<close> for a string \<open>x\<close>: element of a list, substring of a string, key of a dict.\<close>

fun py_in :: "string \<Rightarrow> 'f pyval \<Rightarrow> error + bool" where
  "py_in x (PList xs) = Inr (PStr x \<in> set xs)"
| "py_in x (PStr s) = Inr (contains_str x s)"
| "py_in x (PDict kvs) = Inr (x \<in> set (map fst kvs))"
| "py_in x _ = Inl TypeError"

text \<open>\<open>float(v)\<close>.\<close>

fun py_float :: "'f pylib \<Rightarrow> 'f pyval \<Rightarrow> error + 'f" where
  "py_float L (PFloat x) = Inr x"
| "py_float L (PStr s) = (case float_of_str L s of None \<Rightarrow> Inl LibValueError | Some x \<Rightarrow> Inr x)"
| "py_float L (PInt n) = (case float_of_int L n of None \<Rightarrow> Inl OverflowError | Some x \<Rightarrow> Inr x)"
| "py_float L (PBool b) =
     (case float_of_int L (if b then 1 else 0) of None \<Rightarrow> Inl OverflowError | Some x \<Rightarrow> Inr x)"
| "py_float L _ = Inl TypeError"

text \<open>The elements an iteration over \<open>v\<close> yields.\<close>

fun py_iter :: "'f pyval \<Rightarrow> error + 'f pyval list" where
  "py_iter (PList xs) = Inr xs"
| "py_iter (PDict kvs) = Inr (map (\<lambda>kv. PStr (fst kv)) kvs)"
| "py_iter (PStr s) = Inr (map (\<lambda>c. PStr [c]) s)"
| "py_iter _ = Inl TypeError"

text \<open>\<open>[*map(str.lower, xs)]\<close>: \<open>str.lower\<close> applied to something that is not a string is a
  \<open>TypeError\<close>.\<close>

fun lower_items :: "'f pylib \<Rightarrow> 'f pyval list \<Rightarrow> error + string list" where
  "lower_items L [] = Inr []"
| "lower_items L (x # xs) =
     (case x of
        PStr s \<Rightarrow> (case lower_items L xs of Inl e \<Rightarrow> Inl e | Inr ys \<Rightarrow> Inr (str_lower L s # ys))
      | _ \<Rightarrow> Inl TypeError)"

text \<open>\<open>s.encode('utf-8')\<close> on code points below 256.\<close>

definition utf8_char :: "char \<Rightarrow> string" where
  "utf8_char c =
     (let n = (of_char c :: nat)
      in if n < 128 then [c] else [char_of (192 + n div 64), char_of (128 + n mod 64)])"

definition encode_utf8 :: "string \<Rightarrow> string" where
  "encode_utf8 s = concat (map utf8_char s)"

section \<open>The client\<close>

definition API_URL :: string where
  "API_URL = ''https://api.changelly.com''"

text \<open>The class attribute \<open>currency_list = list()\<close>, which no method mutates.\<close>

definition class_currency_list :: "'f pyval" where
  "class_currency_list = PList []"

text \<open>The class attribute \<open>_headers\<close> as the class statement leaves it.\<close>

definition initial_headers :: "(string \<times> string) list" where
  "initial_headers = [(''api-key'', ''''), (''sign'', ''''), (''Content-type'', ''application/json'')]"

text \<open>
  What a method running on one instance reads and writes: the dict \<open>_headers\<close>, which is
  the class's; the attributes \<open>_secret\<close> and \<open>currency_list\<close> of \<open>self\<close> (the latter \<open>None\<close>
  while \<open>self\<close> has no attribute of its own and the lookup reaches the class); and the calls
  made to the remote service so far.
\<close>

record 'f frame =
  headers :: "(string \<times> string) list"
  self_secret :: string
  self_currency_list :: "'f pyval option"
  net_log :: "'f call list"

definition currency_list :: "'f frame \<Rightarrow> 'f pyval" where
  "currency_list fr = (case self_currency_list fr of None \<Rightarrow> class_currency_list | Some v \<Rightarrow> v)"

subsection \<open>Methods as state transformers that may raise\<close>

type_synonym ('f, 'a) act = "'f frame \<Rightarrow> (error + 'a) \<times> 'f frame"

definition ret :: "'a \<Rightarrow> ('f, 'a) act" where
  "ret x = (\<lambda>fr. (Inr x, fr))"

definition throw :: "error \<Rightarrow> ('f, 'a) act" where
  "throw e = (\<lambda>fr. (Inl e, fr))"

definition lift :: "error + 'a \<Rightarrow> ('f, 'a) act" where
  "lift r = (\<lambda>fr. (r, fr))"

definition bnd :: "('f, 'a) act \<Rightarrow> ('a \<Rightarrow> ('f, 'b) act) \<Rightarrow> ('f, 'b) act" where
  "bnd m f = (\<lambda>fr. case m fr of (Inl e, fr') \<Rightarrow> (Inl e, fr') | (Inr x, fr') \<Rightarrow> f x fr')"

subsection \<open>\<open>_request\<close>\<close>

definition envelope :: "string \<Rightarrow> 'f pyval \<Rightarrow> 'f pyval" where
  "envelope command params =
     PDict [(''jsonrpc'', PStr ''2.0''), (''id'', PInt 1), (''method'', PStr command),
            (''params'', if params \<noteq> PNone then params else PList [])]"

text \<open>\<open>response.json().get('result')\<close>.\<close>

definition result_of :: "'f http_response \<Rightarrow> error + 'f pyval" where
  "result_of r =
     (case json_body r of
        None \<Rightarrow> Inl JSONDecodeError
      | Some (PDict kvs) \<Rightarrow> Inr (case map_of kvs ''result'' of None \<Rightarrow> PNone | Some v \<Rightarrow> v)
      | Some _ \<Rightarrow> Inl AttributeError)"

definition request :: "'f pylib \<Rightarrow> string \<Rightarrow> 'f pyval \<Rightarrow> ('f, 'f pyval) act" where
  "request L command params fr =
     (let data = json_dumps L (envelope command params);
          hs = AList.update ''sign'' (hmac_sha512_hex L (self_secret fr) (encode_utf8 data)) (headers fr);
          c = \<lparr>url = API_URL, sent_headers = hs, sent_data = data,
               rpc_method = command, rpc_params = (if params \<noteq> PNone then params else PList [])\<rparr>;
          calls = net_log fr @ [c];
          response = http_post L calls;
          fr' = fr\<lparr>headers := hs, net_log := calls\<rparr>
      in if response_ok response then (result_of response, fr')
         else (Inl (HTTPError (status_code response)), fr'))"

subsection \<open>\<open>get_currencies\<close>\<close>

definition get_currencies :: "'f pylib \<Rightarrow> ('f, 'f pyval) act" where
  "get_currencies L fr =
     (case py_len (currency_list fr) of
        Inl e \<Rightarrow> (Inl e, fr)
      | Inr n \<Rightarrow>
          if n = 0 then
            (case request L ''getCurrencies'' PNone fr of
               (Inl e, fr') \<Rightarrow> (Inl e, fr')
             | (Inr r, fr') \<Rightarrow> (Inr r, fr'\<lparr>self_currency_list := Some r\<rparr>))
          else (Inr (currency_list fr), fr))"

subsection \<open>\<open>get_min_amount\<close>\<close>

definition min_amount_params :: "string \<Rightarrow> string \<Rightarrow> 'f pyval" where
  "min_amount_params f t = PDict [(''from'', PStr f), (''to'', PStr t)]"

definition invalid_currency :: error where
  "invalid_currency = ValueError ''Invalid currency error.''"

definition get_min_amount :: "'f pylib \<Rightarrow> string \<Rightarrow> string \<Rightarrow> ('f, 'f) act" where
  "get_min_amount L from_currency to_currency =
     (let f = str_lower L from_currency; t = str_lower L to_currency
      in bnd (get_currencies L) (\<lambda>cl1.
         bnd (lift (py_in f cl1)) (\<lambda>b1.
           if b1 then
             bnd (get_currencies L) (\<lambda>cl2.
             bnd (lift (py_in t cl2)) (\<lambda>b2.
               if b2 then
                 bnd (request L ''getMinAmount'' (min_amount_params f t)) (\<lambda>r.
                 bnd (lift (py_float L r)) (\<lambda>x. ret (round8 L x)))
               else throw invalid_currency))
           else throw invalid_currency)))"

subsection \<open>\<open>get_exchange_amount\<close>\<close>

text \<open>Lines 108 to 110 (and 112 to 114): a bare string becomes a one-element list, then
  every element is lower-cased.\<close>

definition normalize_codes :: "'f pylib \<Rightarrow> 'f pyval \<Rightarrow> error + string list" where
  "normalize_codes L v =
     (case py_iter (if v \<noteq> PNone \<and> is_str v then PList [v] else v) of
        Inl e \<Rightarrow> Inl e
      | Inr xs \<Rightarrow> lower_items L xs)"

text \<open>\<open>float(str(amount))\<close>.\<close>

definition coerce_amount :: "'f pylib \<Rightarrow> 'f pyval \<Rightarrow> error + 'f" where
  "coerce_amount L amount = py_float L (PStr (py_str L amount))"

definition below_minimum :: "'f pylib \<Rightarrow> 'f \<Rightarrow> string \<Rightarrow> error" where
  "below_minimum L min_amount f =
     ValueError (''Min. mount is amount '' @ format_8f L min_amount @ '' '' @ str_upper L f @ ''.'')"

text \<open>The loop of lines 118 to 124 over the zipped pairs. Both memberships are elements of
  a tuple, so both are evaluated before \<open>all\<close> looks at them.\<close>

fun check_pairs :: "'f pylib \<Rightarrow> 'f \<Rightarrow> (string \<times> string) list \<Rightarrow> ('f, unit) act" where
  "check_pairs L amount [] = ret ()"
| "check_pairs L amount (p # ps) =
     bnd (get_currencies L) (\<lambda>cl1.
     bnd (lift (py_in (fst p) cl1)) (\<lambda>b1.
     bnd (get_currencies L) (\<lambda>cl2.
     bnd (lift (py_in (snd p) cl2)) (\<lambda>b2.
       if b1 \<and> b2 then
         bnd (get_min_amount L (fst p) (snd p)) (\<lambda>min_amount.
           if float_less L amount min_amount then throw (below_minimum L min_amount (fst p))
           else check_pairs L amount ps)
       else throw invalid_currency))))"

definition quote :: "string \<Rightarrow> string \<Rightarrow> 'f \<Rightarrow> 'f pyval" where
  "quote f t amount = PDict [(''from'', PStr f), (''to'', PStr t), (''amount'', PFloat amount)]"

text \<open>Lines 130 to 135, reached with both lists of the same size.\<close>

definition exchange_params :: "string list \<Rightarrow> string list \<Rightarrow> 'f \<Rightarrow> 'f pyval" where
  "exchange_params fs ts amount =
     (if length fs = 1 then quote (hd fs) (hd ts) amount
      else PList (map (\<lambda>p. quote (fst p) (snd p) amount) (zip fs ts)))"

text \<open>The loop of lines 144 and 145 over the records of a list result.\<close>

fun round_records :: "'f pylib \<Rightarrow> 'f pyval list \<Rightarrow> error + 'f pyval list" where
  "round_records L [] = Inr []"
| "round_records L (r # rs) =
     (case r of
        PDict kvs \<Rightarrow>
          (case map_of kvs ''amount'' of
             None \<Rightarrow> Inl KeyError
           | Some v \<Rightarrow>
               (case py_float L v of
                  Inl e \<Rightarrow> Inl e
                | Inr x \<Rightarrow>
                    (case round_records L rs of
                       Inl e \<Rightarrow> Inl e
                     | Inr rs' \<Rightarrow> Inr (PDict (AList.update ''amount'' (PFloat (round8 L x)) kvs) # rs'))))
      | _ \<Rightarrow> Inl TypeError)"

text \<open>Lines 139 to 146: \<open>len(result)\<close> comes first. A dict result with entries fails at
  \<open>result[0]\<close>, its keys being strings.\<close>

definition round_result :: "'f pylib \<Rightarrow> 'f pyval \<Rightarrow> error + 'f pyval" where
  "round_result L result =
     (case py_len result of
        Inl e \<Rightarrow> Inl e
      | Inr elements_count \<Rightarrow>
          (case result of
             PStr s \<Rightarrow> (case py_float L (PStr s) of Inl e \<Rightarrow> Inl e | Inr x \<Rightarrow> Inr (PFloat (round8 L x)))
           | PList rs \<Rightarrow> (case round_records L rs of Inl e \<Rightarrow> Inl e | Inr rs' \<Rightarrow> Inr (PList rs'))
           | PDict kvs \<Rightarrow> if elements_count = 0 then Inr result else Inl KeyError
           | _ \<Rightarrow> Inl TypeError))"

definition size_mismatch :: error where
  "size_mismatch = IndexError ''\"From\" and \"To\" lists do not have the same size.''"

definition get_exchange_amount ::
  "'f pylib \<Rightarrow> 'f pyval \<Rightarrow> 'f pyval \<Rightarrow> 'f pyval \<Rightarrow> ('f, 'f pyval) act" where
  "get_exchange_amount L from_currency to_currency amount =
     bnd (lift (normalize_codes L from_currency)) (\<lambda>fs.
     bnd (lift (normalize_codes L to_currency)) (\<lambda>ts.
     bnd (lift (coerce_amount L amount)) (\<lambda>a.
     bnd (check_pairs L a (zip fs ts)) (\<lambda>_.
       if length fs \<noteq> length ts then throw size_mismatch
       else bnd (request L ''getExchangeAmount'' (exchange_params fs ts a)) (\<lambda>result.
            lift (round_result L result))))))"

subsection \<open>\<open>create_transaction\<close>\<close>

text \<open>Lines 181 to 185: the three conditions are the elements of a tuple, so
  \<open>len(refund)\<close> is evaluated whatever the first two are.\<close>

definition add_refund :: "string \<Rightarrow> 'f pyval \<Rightarrow> (string \<times> 'f pyval) list \<Rightarrow> error + (string \<times> 'f pyval) list" where
  "add_refund k refund params =
     (case py_len refund of
        Inl e \<Rightarrow> Inl e
      | Inr n \<Rightarrow> Inr (if refund \<noteq> PNone \<and> is_str refund \<and> 0 < n then AList.update k refund params
                     else params))"

definition create_transaction ::
  "'f pylib \<Rightarrow> 'f pyval \<Rightarrow> 'f pyval \<Rightarrow> 'f pyval \<Rightarrow> 'f pyval \<Rightarrow> 'f pyval \<Rightarrow> 'f pyval \<Rightarrow> 'f pyval
     \<Rightarrow> ('f, 'f pyval) act" where
  "create_transaction L from_currency to_currency destination_address amount extra_id
       refund_address refund_extra_id =
     (let extra_id' = (if extra_id = PNone then PStr ''null'' else extra_id);
          params = [(''from'', from_currency), (''to'', to_currency),
                    (''address'', destination_address), (''extraId'', extra_id'),
                    (''amount'', amount)]
      in bnd (lift (add_refund ''refundAddress'' refund_address params)) (\<lambda>params1.
         bnd (lift (add_refund ''refundExtraId'' refund_extra_id params1)) (\<lambda>params2.
         request L ''createTransaction'' (PDict params2))))"

subsection \<open>\<open>get_transaction_status\<close>\<close>

definition get_transaction_status :: "'f pylib \<Rightarrow> 'f pyval \<Rightarrow> ('f, 'f pyval) act" where
  "get_transaction_status L tx_id = request L ''getStatus'' (PDict [(''id'', PStr (py_str L tx_id))])"

section \<open>Several clients in one process\<close>

text \<open>
  An instance owns \<open>_secret\<close> and, once \<open>get_currencies\<close> has assigned it, \<open>currency_list\<close>.
  The dict \<open>_headers\<close> is created once by the class statement; \<open>__init__\<close> and \<open>_request\<close>
  store into that one dict through \<open>self._headers[...]\<close>.
\<close>

record 'f client =
  secret :: string
  currency_list_attr :: "'f pyval option"

record 'f world =
  class_headers :: "(string \<times> string) list"
  clients :: "'f client list"
  wire :: "'f call list"

definition fresh_world :: "'f world" where
  "fresh_world = \<lparr>class_headers = initial_headers, clients = [], wire = []\<rparr>"

text \<open>\<open>ChangellyPy(key, secret)\<close>: the reference to the new instance and the world after
  \<open>__init__\<close>.\<close>

definition new_client :: "string \<Rightarrow> string \<Rightarrow> 'f world \<Rightarrow> nat \<times> 'f world" where
  "new_client key secret_text w =
     (length (clients w),
      w\<lparr>class_headers := AList.update ''api-key'' key (class_headers w),
        clients := clients w @ [\<lparr>secret = encode_utf8 secret_text, currency_list_attr = None\<rparr>]\<rparr>)"

definition frame_of :: "'f world \<Rightarrow> 'f client \<Rightarrow> 'f frame" where
  "frame_of w obj =
     \<lparr>headers = class_headers w, self_secret = secret obj,
      self_currency_list = currency_list_attr obj, net_log = wire w\<rparr>"

text \<open>A method call on the instance \<open>self\<close>; \<open>None\<close> when \<open>self\<close> refers to no instance.\<close>

definition call_on :: "nat \<Rightarrow> ('f, 'a) act \<Rightarrow> 'f world \<Rightarrow> ((error + 'a) \<times> 'f world) option" where
  "call_on self m w =
     (if self < length (clients w) then
        (case m (frame_of w (clients w ! self)) of
           (r, fr) \<Rightarrow>
             Some (r, w\<lparr>class_headers := headers fr,
                        clients := (clients w)[self := \<lparr>secret = self_secret fr,
                                                          currency_list_attr = self_currency_list fr\<rparr>],
                        wire := net_log fr\<rparr>))
      else None)"

text \<open>What the instance \<open>self\<close> sees as \<open>self._headers['api-key']\<close> and \<open>self.currency_list\<close>.\<close>

definition api_key_of :: "'f world \<Rightarrow> nat \<Rightarrow> string option" where
  "api_key_of w self = (if self < length (clients w) then map_of (class_headers w) ''api-key'' else None)"

definition currency_list_of :: "'f world \<Rightarrow> nat \<Rightarrow> 'f pyval option" where
  "currency_list_of w self =
     (if self < length (clients w) then Some (currency_list (frame_of w (clients w ! self))) else None)"

section \<open>Observing the network\<close>

text \<open>The calls a method made: those the log holds after it and did not hold before.\<close>

definition new_calls :: "'f frame \<Rightarrow> 'f frame \<Rightarrow> 'f call list" where
  "new_calls fr fr' = drop (length (net_log fr)) (net_log fr')"

text \<open>From \<open>fr\<close> to \<open>fr'\<close> the log only grew, and by calls of the commands in \<open>M\<close> only.\<close>

definition dispatched_only :: "string set \<Rightarrow> 'f frame \<Rightarrow> 'f frame \<Rightarrow> bool" where
  "dispatched_only M fr fr' =
     (prefix (net_log fr) (net_log fr') \<and> set (map rpc_method (new_calls fr fr')) \<subseteq> M)"

text \<open>
  A remote service that reports minimum amounts: every \<open>getMinAmount\<close> call for the pair
  \<open>(f, t)\<close> is answered with success and a result that \<open>float\<close> reads as \<open>m f t\<close>, whatever
  was sent before.
\<close>

definition min_amount_service :: "'f pylib \<Rightarrow> (string \<Rightarrow> string \<Rightarrow> 'f) \<Rightarrow> bool" where
  "min_amount_service L m =
     (\<forall>calls c f t. rpc_method c = ''getMinAmount'' \<and> rpc_params c = min_amount_params f t \<longrightarrow>
        response_ok (http_post L (calls @ [c])) \<and>
        (\<exists>r. result_of (http_post L (calls @ [c])) = Inr r \<and> py_float L r = Inr (m f t)))"

text \<open>The amount \<open>a\<close> is strictly less than the minimum \<open>get_min_amount\<close> computes for
  the pair \<open>p\<close> from such a service.\<close>

definition below :: "'f pylib \<Rightarrow> (string \<Rightarrow> string \<Rightarrow> 'f) \<Rightarrow> 'f \<Rightarrow> string \<times> string \<Rightarrow> bool" where
  "below L m a p = float_less L a (round8 L (m (fst p) (snd p)))"

section \<open>A test double for the library and the remote service\<close>

text \<open>
  A concrete library to run the client on: ASCII case folding, floats as integer counts of
  hundred-millionths with a small table of decimal texts, a flat rendering in place of
  \<open>json.dumps\<close>, key and message side by side in place of the keyed hash, and a remote
  service that knows three currencies, answers every minimum with \<open>"0.001"\<close>, accepts
  every transaction and answers a quote request with an error object, that is with no
  \<open>result\<close> field.
\<close>

definition ascii_lower :: "char \<Rightarrow> char" where
  "ascii_lower c =
     (case map_of (zip ''ABCDEFGHIJKLMNOPQRSTUVWXYZ'' ''abcdefghijklmnopqrstuvwxyz'') c of
        None \<Rightarrow> c | Some d \<Rightarrow> d)"

definition ascii_upper :: "char \<Rightarrow> char" where
  "ascii_upper c =
     (case map_of (zip ''abcdefghijklmnopqrstuvwxyz'' ''ABCDEFGHIJKLMNOPQRSTUVWXYZ'') c of
        None \<Rightarrow> c | Some d \<Rightarrow> d)"

definition demo_str :: "int pyval \<Rightarrow> string" where
  "demo_str v = (case v of PStr s \<Rightarrow> s | PNone \<Rightarrow> ''None'' | _ \<Rightarrow> ''?'')"

definition demo_float :: "string \<Rightarrow> int option" where
  "demo_float = map_of [(''0.0001'', 10000), (''0.001'', 100000), (''0.5'', 50000000)]"

definition demo_format :: "int \<Rightarrow> string" where
  "demo_format x =
     (case map_of [(10000 :: int, ''0.00010000''), (100000, ''0.00100000''), (50000000, ''0.50000000'')] x of
        None \<Rightarrow> ''?'' | Some s \<Rightarrow> s)"

definition demo_atom :: "int pyval \<Rightarrow> string" where
  "demo_atom v = (case v of PStr s \<Rightarrow> s | PNone \<Rightarrow> ''null'' | PList xs \<Rightarrow> ''[]'' | PDict kvs \<Rightarrow> ''{}'' | _ \<Rightarrow> ''0'')"

definition demo_dumps :: "int pyval \<Rightarrow> string" where
  "demo_dumps v =
     (case v of PDict kvs \<Rightarrow> concat (map (\<lambda>kv. fst kv @ ''='' @ demo_atom (snd kv) @ '';'') kvs)
      | _ \<Rightarrow> demo_atom v)"

definition demo_answer :: "int pyval \<Rightarrow> int http_response" where
  "demo_answer v = HttpResponse 200 (Some (PDict [(''jsonrpc'', PStr ''2.0''), (''id'', PInt 1), (''result'', v)]))"

definition demo_remote :: "int call list \<Rightarrow> int http_response" where
  "demo_remote calls =
     (case rev calls of
        [] \<Rightarrow> HttpResponse 400 None
      | c # _ \<Rightarrow>
          if rpc_method c = ''getCurrencies'' then demo_answer (PList [PStr ''btc'', PStr ''eth'', PStr ''ltc''])
          else if rpc_method c = ''getMinAmount'' then demo_answer (PStr ''0.001'')
          else if rpc_method c = ''createTransaction'' then demo_answer (PStr ''tx1'')
          else if rpc_method c = ''getExchangeAmount'' then
            HttpResponse 200 (Some (PDict [(''jsonrpc'', PStr ''2.0''), (''id'', PInt 1),
                                           (''error'', PStr ''Invalid amount'')]))
          else HttpResponse 404 None)"

definition demo_lib :: "int pylib" where
  "demo_lib =
     \<lparr>str_lower = map ascii_lower, str_upper = map ascii_upper, py_str = demo_str,
      float_of_str = demo_float, float_of_int = (\<lambda>n. Some (n * 100000000)), round8 = (\<lambda>x. x),
      float_less = (\<lambda>x y. x < y), format_8f = demo_format, json_dumps = demo_dumps,
      hmac_sha512_hex = (\<lambda>k m. k @ ''/'' @ m), http_post = demo_remote\<rparr>"

text \<open>
  The same library with floats as integer counts of billionths, so that rounding to 8
  digits, here to the nearest multiple of ten, changes a value; and a remote service whose
  minimum is \<open>"0.00000002"\<close> from \<open>eth\<close> to \<open>btc\<close> and \<open>"0.000000004"\<close> for every other pair,
  and which answers a quote request with \<open>"0.5"\<close>.
\<close>

definition fine_float :: "string \<Rightarrow> int option" where
  "fine_float =
     map_of [(''0.000000001'', 1), (''0.000000004'', 4), (''0.00000002'', 20), (''0.5'', 500000000)]"

definition fine_round8 :: "int \<Rightarrow> int" where
  "fine_round8 x = 10 * ((x + 5) div 10)"

definition fine_format :: "int \<Rightarrow> string" where
  "fine_format x =
     (case map_of [(0 :: int, ''0.00000000''), (20, ''0.00000002''), (500000000, ''0.50000000'')] x of
        None \<Rightarrow> ''?'' | Some s \<Rightarrow> s)"

definition fine_minimum :: "string \<Rightarrow> string \<Rightarrow> int" where
  "fine_minimum f t = (if f = ''eth'' \<and> t = ''btc'' then 20 else 4)"

definition fine_remote :: "int call list \<Rightarrow> int http_response" where
  "fine_remote calls =
     (case rev calls of
        [] \<Rightarrow> HttpResponse 400 None
      | c # _ \<Rightarrow>
          if rpc_method c = ''getCurrencies'' then demo_answer (PList [PStr ''btc'', PStr ''eth'', PStr ''ltc''])
          else if rpc_method c = ''getMinAmount'' then
            (if rpc_params c = min_amount_params ''eth'' ''btc'' then demo_answer (PStr ''0.00000002'')
             else demo_answer (PStr ''0.000000004''))
          else if rpc_method c = ''getExchangeAmount'' then demo_answer (PStr ''0.5'')
          else HttpResponse 404 None)"

definition fine_lib :: "int pylib" where
  "fine_lib =
     demo_lib\<lparr>float_of_str := fine_float, float_of_int := (\<lambda>n. Some (n * 1000000000)),
              round8 := fine_round8, format_8f := fine_format, http_post := fine_remote\<rparr>"

text \<open>A client constructed with key \<open>k\<close> and secret \<open>s\<close>, before its first call.\<close>

definition demo_frame :: "int frame" where
  "demo_frame =
     \<lparr>headers = AList.update ''api-key'' ''k'' initial_headers, self_secret = encode_utf8 ''s'',
      self_currency_list = None, net_log = []\<rparr>"

section \<open>Basic facts\<close>

lemmas act_defs = bnd_def ret_def throw_def lift_def

lemmas demo_defs = demo_lib_def demo_frame_def demo_remote_def demo_answer_def demo_float_def
  demo_format_def demo_str_def demo_dumps_def demo_atom_def ascii_lower_def ascii_upper_def
  initial_headers_def encode_utf8_def utf8_char_def

lemmas client_defs = request_def get_currencies_def get_min_amount_def get_exchange_amount_def
  create_transaction_def add_refund_def normalize_codes_def coerce_amount_def round_result_def
  exchange_params_def quote_def min_amount_params_def envelope_def result_of_def response_ok_def
  currency_list_def class_currency_list_def below_minimum_def invalid_currency_def
  size_mismatch_def API_URL_def Let_def

lemma py_len_error: "py_len v = Inl e \<Longrightarrow> e = TypeError"
  by (cases v) simp_all

lemma request_log:
  "net_log (snd (request L command params fr)) =
     net_log fr @
     [\<lparr>url = API_URL,
       sent_headers =
         AList.update ''sign''
           (hmac_sha512_hex L (self_secret fr) (encode_utf8 (json_dumps L (envelope command params))))
           (headers fr),
       sent_data = json_dumps L (envelope command params), rpc_method = command,
       rpc_params = (if params \<noteq> PNone then params else PList [])\<rparr>]"
  by (simp add: request_def Let_def)

subsection \<open>The UTF-8 encoding loses nothing\<close>

lemma of_char_div64: "(of_char c :: nat) div 64 < 4"
proof -
  have "\<And>n::nat. n < 256 \<Longrightarrow> n div 64 < 4" by arith
  moreover have "(of_char c :: nat) < 256" by simp
  ultimately show ?thesis .
qed

lemma utf8_char_inj: "utf8_char c @ xs = utf8_char d @ ys \<Longrightarrow> c = d \<and> xs = ys"
proof -
  assume eq: "utf8_char c @ xs = utf8_char d @ ys"
  let ?n = "of_char c :: nat" and ?m = "of_char d :: nat"
  show ?thesis
  proof (cases "?n < 128")
    case cn: True
    show ?thesis
    proof (cases "?m < 128")
      case True
      with cn eq show ?thesis by (simp add: utf8_char_def)
    next
      case False
      with cn eq have "c = char_of (192 + ?m div 64)" by (simp add: utf8_char_def Let_def)
      then have "?n = (192 + ?m div 64) mod 256" by (metis of_char_of)
      moreover have "?m div 64 < 4" by (rule of_char_div64)
      ultimately show ?thesis using cn by simp
    qed
  next
    case cn: False
    show ?thesis
    proof (cases "?m < 128")
      case True
      with cn eq have "d = char_of (192 + ?n div 64)" by (simp add: utf8_char_def Let_def)
      then have "?m = (192 + ?n div 64) mod 256" by (metis of_char_of)
      moreover have "?n div 64 < 4" by (rule of_char_div64)
      ultimately show ?thesis using True by simp
    next
      case False
      with cn eq have a: "(char_of (192 + ?n div 64) :: char) = char_of (192 + ?m div 64)"
        and b: "(char_of (128 + ?n mod 64) :: char) = char_of (128 + ?m mod 64)" and t: "xs = ys"
        by (simp_all add: utf8_char_def Let_def)
      from a have "(192 + ?n div 64) mod 256 = (192 + ?m div 64) mod 256" by (metis of_char_of)
      moreover have "?n div 64 < 4" "?m div 64 < 4" by (rule of_char_div64)+
      ultimately have d: "?n div 64 = ?m div 64" by simp
      from b have "(128 + ?n mod 64) mod 256 = (128 + ?m mod 64) mod 256" by (metis of_char_of)
      then have r: "?n mod 64 = ?m mod 64" by simp
      from d r have "?n = ?m" by (metis div_mult_mod_eq)
      then have "c = d" by simp
      with t show ?thesis by simp
    qed
  qed
qed

lemma encode_utf8_inj: "encode_utf8 s = encode_utf8 t \<Longrightarrow> s = t"
proof (induction s arbitrary: t)
  case Nil
  then show ?case
    by (cases t) (simp_all add: encode_utf8_def utf8_char_def Let_def split: if_splits)
next
  case (Cons c s)
  show ?case
  proof (cases t)
    case Nil
    with Cons.prems show ?thesis
      by (simp add: encode_utf8_def utf8_char_def Let_def split: if_splits)
  next
    case (Cons d t')
    with Cons.prems have "utf8_char c @ encode_utf8 s = utf8_char d @ encode_utf8 t'"
      by (simp add: encode_utf8_def)
    then have "c = d \<and> encode_utf8 s = encode_utf8 t'" by (rule utf8_char_inj)
    with Cons.IH Cons show ?thesis by simp
  qed
qed

subsection \<open>Requests, refunds, the currency cache and several clients\<close>

lemma request_new_calls:
  "new_calls fr (snd (request L command params fr)) =
     [\<lparr>url = API_URL,
       sent_headers =
         AList.update ''sign''
           (hmac_sha512_hex L (self_secret fr) (encode_utf8 (json_dumps L (envelope command params))))
           (headers fr),
       sent_data = json_dumps L (envelope command params), rpc_method = command,
       rpc_params = (if params \<noteq> PNone then params else PList [])\<rparr>]"
  by (simp add: new_calls_def request_log)

lemma add_refund_keeps:
  "add_refund k refund params = Inr params' \<Longrightarrow> k \<noteq> k' \<Longrightarrow> map_of params' k' = map_of params k'"
  by (auto simp add: add_refund_def update_conv' split: sum.splits if_splits)

lemma get_currencies_cached:
  "py_len (currency_list fr) = Inr (Suc n) \<Longrightarrow> get_currencies L fr = (Inr (currency_list fr), fr)"
  by (simp add: get_currencies_def)

lemma get_currencies_result_cached:
  assumes "get_currencies L fr = (Inr v, fr')" and "py_len v = Inr (Suc n)"
  shows "currency_list fr' = v"
  using assms
  by (auto simp add: get_currencies_def currency_list_def split: sum.splits if_splits prod.splits)

lemma new_client_api_key:
  "api_key_of (snd (new_client key secret_text w)) self =
     (if self \<le> length (clients w) then Some key else None)"
  by (auto simp add: api_key_of_def new_client_def update_conv')

lemma call_on_other_client:
  assumes "call_on self m w = Some (r, w')" and "other \<noteq> self"
  shows "clients w' ! other = clients w ! other"
    and "currency_list_of w' other = currency_list_of w other"
  using assms
  by (auto simp add: call_on_def currency_list_of_def frame_of_def currency_list_def
      split: if_splits prod.splits)

lemma new_client_other_client:
  assumes "other < length (clients w)"
  shows "currency_list_of (snd (new_client key secret_text w)) other = currency_list_of w other"
  using assms
  by (simp add: new_client_def currency_list_of_def frame_of_def currency_list_def nth_append)

subsection \<open>Sequencing\<close>

lemma bnd_Inr: "m fr = (Inr x, fr') \<Longrightarrow> bnd m f fr = f x fr'"
  by (simp add: bnd_def)

lemma bnd_Inl: "m fr = (Inl e, fr') \<Longrightarrow> bnd m f fr = (Inl e, fr')"
  by (simp add: bnd_def)

lemma bnd_lift_Inr [simp]: "bnd (lift (Inr x)) f = f x"
  by (simp add: bnd_def lift_def)

lemma bnd_lift_Inl [simp]: "bnd (lift (Inl e)) f fr = (Inl e, fr)"
  by (simp add: bnd_def lift_def)

lemma snd_bnd_lift: "snd (bnd m (\<lambda>x. lift (g x)) fr) = snd (m fr)"
  by (simp add: bnd_def lift_def split: prod.splits sum.splits)

lemma parse_min_amount:
  "bnd (request L ''getMinAmount'' params) (\<lambda>r. bnd (lift (py_float L r)) (\<lambda>x. ret (round8 L x))) fr =
     (case request L ''getMinAmount'' params fr of
        (Inl e, fr2) \<Rightarrow> (Inl e, fr2)
      | (Inr r, fr2) \<Rightarrow> (case py_float L r of Inl e \<Rightarrow> Inl e | Inr x \<Rightarrow> Inr (round8 L x), fr2))"
  by (simp add: act_defs split: prod.splits sum.splits)

subsection \<open>Which commands a method can send\<close>

lemma dispatched_only_refl: "dispatched_only M fr fr"
  by (simp add: dispatched_only_def new_calls_def)

lemma dispatched_only_trans:
  assumes "dispatched_only M a b" and "dispatched_only M b c"
  shows "dispatched_only M a c"
proof -
  from assms obtain xs ys where b: "net_log b = net_log a @ xs" and c: "net_log c = net_log b @ ys"
    by (auto simp add: dispatched_only_def prefix_def)
  with assms show ?thesis by (auto simp add: dispatched_only_def new_calls_def)
qed

lemma dispatched_only_mono: "dispatched_only M a b \<Longrightarrow> M \<subseteq> N \<Longrightarrow> dispatched_only N a b"
  by (auto simp add: dispatched_only_def)

lemma dispatched_only_same_log: "net_log b = net_log a \<Longrightarrow> dispatched_only M a b"
  by (simp add: dispatched_only_def new_calls_def)

lemma request_dispatched: "command \<in> M \<Longrightarrow> dispatched_only M fr (snd (request L command params fr))"
  by (simp add: dispatched_only_def request_new_calls request_log)

lemma bnd_dispatched:
  assumes "\<And>fr. dispatched_only M fr (snd (m fr))"
    and "\<And>x fr. dispatched_only M fr (snd (f x fr))"
  shows "dispatched_only M fr (snd (bnd m f fr))"
proof (cases "m fr")
  case (Pair r fr')
  have 1: "dispatched_only M fr fr'" using assms(1) [of fr] Pair by simp
  show ?thesis
  proof (cases r)
    case (Inl e)
    with Pair 1 show ?thesis by (simp add: bnd_def)
  next
    case (Inr x)
    with Pair have "bnd m f fr = f x fr'" by (simp add: bnd_def)
    with 1 assms(2) [of fr' x] show ?thesis by (simp add: dispatched_only_trans)
  qed
qed

lemma pure_dispatched:
  "dispatched_only M fr (snd (ret x fr))"
  "dispatched_only M fr (snd (throw e fr))"
  "dispatched_only M fr (snd (lift r fr))"
  by (simp_all add: act_defs dispatched_only_refl)

lemma get_currencies_dispatched:
  "''getCurrencies'' \<in> M \<Longrightarrow> dispatched_only M fr (snd (get_currencies L fr))"
proof -
  assume m: "''getCurrencies'' \<in> M"
  have "net_log (snd (get_currencies L fr)) = net_log fr \<or>
        net_log (snd (get_currencies L fr)) = net_log (snd (request L ''getCurrencies'' PNone fr))"
    by (auto simp add: get_currencies_def split: sum.splits prod.splits)
  then show ?thesis
    using request_dispatched [OF m, of fr L PNone]
    by (auto simp add: dispatched_only_def new_calls_def)
qed

lemma if_dispatched:
  assumes "b \<Longrightarrow> dispatched_only M fr (snd (m1 fr))" and "\<not> b \<Longrightarrow> dispatched_only M fr (snd (m2 fr))"
  shows "dispatched_only M fr (snd ((if b then m1 else m2) fr))"
  using assms by simp

lemma get_min_amount_dispatched:
  assumes "''getCurrencies'' \<in> M" and "''getMinAmount'' \<in> M"
  shows "dispatched_only M fr (snd (get_min_amount L f t fr))"
  unfolding get_min_amount_def Let_def
  by (intro bnd_dispatched if_dispatched pure_dispatched get_currencies_dispatched
        request_dispatched assms)

lemma check_pairs_dispatched:
  assumes "''getCurrencies'' \<in> M" and "''getMinAmount'' \<in> M"
  shows "dispatched_only M fr (snd (check_pairs L a ps fr))"
proof (induction ps arbitrary: fr)
  case Nil
  show ?case by (simp add: pure_dispatched)
next
  case (Cons p ps)
  show ?case
    unfolding check_pairs.simps
    by (intro bnd_dispatched if_dispatched pure_dispatched get_currencies_dispatched
          get_min_amount_dispatched Cons.IH assms)
qed

lemma get_currencies_list_stable:
  assumes "get_currencies L fr = (Inr (PList cl), fr1)" and "cl \<noteq> []"
  shows "get_currencies L fr1 = (Inr (PList cl), fr1)"
proof -
  from assms(2) obtain n where n: "py_len (PList cl :: 'a pyval) = Inr (Suc n)"
    by (cases cl) simp_all
  from get_currencies_result_cached [OF assms(1) n] have "currency_list fr1 = PList cl" .
  with n get_currencies_cached [of fr1 n L] show ?thesis by simp
qed

subsection \<open>The validation loop against a service that reports minimum amounts\<close>

lemma request_keeps:
  "currency_list (snd (request L command params fr)) = currency_list fr"
  "self_secret (snd (request L command params fr)) = self_secret fr"
  by (simp_all add: request_def Let_def currency_list_def)

lemma request_served:
  assumes "min_amount_service L m"
  shows "\<exists>r. request L ''getMinAmount'' (min_amount_params f t) fr =
            (Inr r, snd (request L ''getMinAmount'' (min_amount_params f t) fr))
          \<and> py_float L r = Inr (m f t)"
proof -
  let ?c = "\<lparr>url = API_URL,
       sent_headers = AList.update ''sign''
           (hmac_sha512_hex L (self_secret fr)
              (encode_utf8 (json_dumps L (envelope ''getMinAmount'' (min_amount_params f t)))))
           (headers fr),
       sent_data = json_dumps L (envelope ''getMinAmount'' (min_amount_params f t)),
       rpc_method = ''getMinAmount'', rpc_params = min_amount_params f t\<rparr>"
  have "rpc_method ?c = ''getMinAmount'' \<and> rpc_params ?c = min_amount_params f t" by simp
  with assms obtain r where ok: "response_ok (http_post L (net_log fr @ [?c]))"
    and r: "result_of (http_post L (net_log fr @ [?c])) = Inr r" and f: "py_float L r = Inr (m f t)"
    unfolding min_amount_service_def by blast
  have "min_amount_params f t \<noteq> (PNone :: 'a pyval)" by (simp add: min_amount_params_def)
  with ok r have "fst (request L ''getMinAmount'' (min_amount_params f t) fr) = Inr r"
    by (simp add: request_def Let_def)
  then have "request L ''getMinAmount'' (min_amount_params f t) fr =
            (Inr r, snd (request L ''getMinAmount'' (min_amount_params f t) fr))"
    by (simp add: prod_eq_iff)
  with f show ?thesis by blast
qed

lemma get_currencies_of_cache:
  assumes "currency_list fr = PList cl" and "cl \<noteq> []"
  shows "get_currencies L fr = (Inr (PList cl), fr)"
proof -
  from assms(2) obtain n where "py_len (PList cl :: 'a pyval) = Inr (Suc n)" by (cases cl) simp_all
  with assms(1) get_currencies_cached [of fr n L] show ?thesis by simp
qed

lemma get_min_amount_served:
  assumes svc: "min_amount_service L m"
    and cache: "currency_list fr = PList cl"
    and f: "PStr (str_lower L f) \<in> set cl" and t: "PStr (str_lower L t) \<in> set cl"
  shows "get_min_amount L f t fr =
           (Inr (round8 L (m (str_lower L f) (str_lower L t))),
            snd (request L ''getMinAmount'' (min_amount_params (str_lower L f) (str_lower L t)) fr))"
proof -
  from f have "cl \<noteq> []" by auto
  from get_currencies_of_cache [OF cache this]
  have g: "get_currencies L fr = (Inr (PList cl), fr)" .
  from request_served [OF svc, of "str_lower L f" "str_lower L t" fr]
  obtain r where r: "request L ''getMinAmount'' (min_amount_params (str_lower L f) (str_lower L t)) fr =
            (Inr r, snd (request L ''getMinAmount'' (min_amount_params (str_lower L f) (str_lower L t)) fr))"
    and p: "py_float L r = Inr (m (str_lower L f) (str_lower L t))" by blast
  have "get_min_amount L f t fr =
     bnd (request L ''getMinAmount'' (min_amount_params (str_lower L f) (str_lower L t)))
       (\<lambda>r. bnd (lift (py_float L r)) (\<lambda>x. ret (round8 L x))) fr"
    using f t by (simp add: get_min_amount_def Let_def bnd_Inr [where m = "get_currencies L", OF g])
  also have "\<dots> = (Inr (round8 L (m (str_lower L f) (str_lower L t))),
            snd (request L ''getMinAmount'' (min_amount_params (str_lower L f) (str_lower L t)) fr))"
    unfolding parse_min_amount by (subst r) (simp add: p)
  finally show ?thesis .
qed

lemma check_pairs_below:
  assumes svc: "min_amount_service L m"
    and cache: "currency_list fr = PList cl"
    and valid: "\<forall>p\<in>set ps. PStr (fst p) \<in> set cl \<and> PStr (snd p) \<in> set cl"
    and fixed: "\<forall>p\<in>set ps. str_lower L (fst p) = fst p \<and> str_lower L (snd p) = snd p"
    and found: "find (below L m a) ps = Some p"
  shows "fst (check_pairs L a ps fr) = Inl (below_minimum L (round8 L (m (fst p) (snd p))) (fst p))"
  using cache valid fixed found
proof (induction ps arbitrary: fr)
  case Nil
  then show ?case by simp
next
  case (Cons q qs)
  from Cons.prems(2) have qf: "PStr (fst q) \<in> set cl" and qt: "PStr (snd q) \<in> set cl" by simp_all
  from Cons.prems(3) have lf: "str_lower L (fst q) = fst q" and lt: "str_lower L (snd q) = snd q"
    by simp_all
  from qf have "cl \<noteq> []" by auto
  from get_currencies_of_cache [OF Cons.prems(1) this]
  have g: "get_currencies L fr = (Inr (PList cl), fr)" .
  let ?fr2 = "snd (request L ''getMinAmount'' (min_amount_params (fst q) (snd q)) fr)"
  have gm: "get_min_amount L (fst q) (snd q) fr = (Inr (round8 L (m (fst q) (snd q))), ?fr2)"
    using get_min_amount_served [OF svc Cons.prems(1), of "fst q" "snd q"] qf qt by (simp add: lf lt)
  have step: "check_pairs L a (q # qs) fr =
      (if float_less L a (round8 L (m (fst q) (snd q)))
       then throw (below_minimum L (round8 L (m (fst q) (snd q))) (fst q)) ?fr2
       else check_pairs L a qs ?fr2)"
    using qf qt
    by (simp add: bnd_Inr [where m = "get_currencies L", OF g]
        bnd_Inr [where m = "get_min_amount L (fst q) (snd q)", OF gm])
  show ?case
  proof (cases "below L m a q")
    case True
    with Cons.prems(4) have "p = q" by simp
    with True show ?thesis unfolding step by (simp add: below_def throw_def)
  next
    case False
    with Cons.prems(4) have f: "find (below L m a) qs = Some p" by simp
    have c: "currency_list ?fr2 = PList cl" using Cons.prems(1) by (simp add: request_keeps)
    from Cons.prems(2,3) have "\<forall>p\<in>set qs. PStr (fst p) \<in> set cl \<and> PStr (snd p) \<in> set cl"
      "\<forall>p\<in>set qs. str_lower L (fst p) = fst p \<and> str_lower L (snd p) = snd p" by simp_all
    from Cons.IH [OF c this f] False show ?thesis unfolding step by (simp add: below_def)
  qed
qed

lemma lower_items_fixed:
  assumes "\<And>s. str_lower L (str_lower L s) = str_lower L s"
  shows "lower_items L xs = Inr ys \<Longrightarrow> \<forall>y\<in>set ys. str_lower L y = y"
proof (induction xs arbitrary: ys)
  case Nil
  then show ?case by simp
next
  case (Cons x xs)
  then show ?case using assms by (auto split: pyval.splits sum.splits)
qed

lemma normalize_codes_fixed:
  assumes "\<And>s. str_lower L (str_lower L s) = str_lower L s" and "normalize_codes L v = Inr ys"
  shows "\<forall>y\<in>set ys. str_lower L y = y"
  using assms(2) lower_items_fixed [OF assms(1)]
  by (auto simp add: normalize_codes_def split: sum.splits)

lemma check_pairs_after_get_currencies:
  assumes "get_currencies L fr = (Inr (PList cl), fr0)" and "cl \<noteq> []"
  shows "check_pairs L a (q # qs) fr = check_pairs L a (q # qs) fr0"
proof -
  from get_currencies_list_stable [OF assms]
  have g: "get_currencies L fr0 = (Inr (PList cl), fr0)" .
  show ?thesis
    by (simp add: bnd_Inr [where m = "get_currencies L", OF assms(1)]
        bnd_Inr [where m = "get_currencies L", OF g])
qed

lemma ascii_lower_idem: "ascii_lower (ascii_lower c) = ascii_lower c"
  by (simp add: ascii_lower_def)

lemma demo_service: "min_amount_service demo_lib (\<lambda>f t. 100000)"
  by (simp add: min_amount_service_def demo_lib_def demo_remote_def demo_answer_def response_ok_def
      result_of_def demo_float_def)

lemmas fine_defs = fine_lib_def fine_float_def fine_round8_def fine_format_def fine_remote_def
  fine_minimum_def

lemma fine_service: "min_amount_service fine_lib fine_minimum"
  by (simp add: min_amount_service_def fine_defs demo_lib_def demo_answer_def response_ok_def
      result_of_def min_amount_params_def)

section \<open>The claims\<close>

text \<open>
  C1. The claim is that \<open>create_transaction\<close> called without \<open>refund_address\<close> (or without
  \<open>refund_extra_id\<close>) completes and sends no such key. The code evaluates
  \<open>len(refund_address)\<close> inside the tuple given to \<open>all\<close>, so with the default \<open>None\<close> the
  call raises \<open>TypeError\<close> and sends nothing, whatever the other arguments are.
\<close>

theorem create_transaction_refund_none_raises:
  "create_transaction L from_currency to_currency destination_address amount extra_id
     PNone refund_extra_id fr = (Inl TypeError, fr)"
  by (simp add: create_transaction_def add_refund_def act_defs)

text \<open>
  C6. A bare string and the same string in a one-element list both normalize to the
  one-element list holding the lower-cased code. \<open>get_exchange_amount\<close> on two bare strings
  therefore coerces the amount, validates the single pair of lower-cased codes, sends
  \<open>getExchangeAmount\<close> with the single \<open>{from, to, amount}\<close> map and rounds the result; on
  the codes wrapped in one-element lists it is the same state transformer. Once the amount
  is a float and the pair has passed validation, both calls send exactly that one request.
\<close>

theorem get_exchange_amount_bare_string_is_singleton:
  "normalize_codes L (PStr f) = Inr [str_lower L f]
   \<and> normalize_codes L (PList [PStr f]) = Inr [str_lower L f]
   \<and> get_exchange_amount L (PStr f) (PStr t) amount fr =
       bnd (lift (coerce_amount L amount)) (\<lambda>a.
       bnd (check_pairs L a [(str_lower L f, str_lower L t)]) (\<lambda>_.
       bnd (request L ''getExchangeAmount'' (quote (str_lower L f) (str_lower L t) a)) (\<lambda>result.
       lift (round_result L result)))) fr
   \<and> get_exchange_amount L (PList [PStr f]) (PList [PStr t]) amount fr =
       get_exchange_amount L (PStr f) (PStr t) amount fr
   \<and> (\<forall>a fr1. coerce_amount L amount = Inr a \<and>
          check_pairs L a [(str_lower L f, str_lower L t)] fr = (Inr (), fr1) \<longrightarrow>
          map (\<lambda>c. (rpc_method c, rpc_params c))
              (new_calls fr1 (snd (get_exchange_amount L (PStr f) (PStr t) amount fr))) =
            [(''getExchangeAmount'', quote (str_lower L f) (str_lower L t) a)]
          \<and> map (\<lambda>c. (rpc_method c, rpc_params c))
              (new_calls fr1 (snd (get_exchange_amount L (PList [PStr f]) (PList [PStr t]) amount fr))) =
            [(''getExchangeAmount'', quote (str_lower L f) (str_lower L t) a)])"
proof -
  have n1: "normalize_codes L (PStr f) = Inr [str_lower L f]"
    and n1': "normalize_codes L (PStr t) = Inr [str_lower L t]"
    and n2: "normalize_codes L (PList [PStr f]) = Inr [str_lower L f]"
    and n2': "normalize_codes L (PList [PStr t]) = Inr [str_lower L t]"
    by (simp_all add: normalize_codes_def)
  have g1: "get_exchange_amount L (PStr f) (PStr t) amount fr =
       bnd (lift (coerce_amount L amount)) (\<lambda>a.
       bnd (check_pairs L a [(str_lower L f, str_lower L t)]) (\<lambda>_.
       bnd (request L ''getExchangeAmount'' (quote (str_lower L f) (str_lower L t) a)) (\<lambda>result.
       lift (round_result L result)))) fr"
    by (simp add: get_exchange_amount_def n1 n1' exchange_params_def del: check_pairs.simps)
  have g2: "get_exchange_amount L (PList [PStr f]) (PList [PStr t]) amount fr =
       get_exchange_amount L (PStr f) (PStr t) amount fr"
    by (simp add: get_exchange_amount_def n1 n1' n2 n2')
  have d: "map (\<lambda>c. (rpc_method c, rpc_params c))
              (new_calls fr1 (snd (get_exchange_amount L (PStr f) (PStr t) amount fr))) =
            [(''getExchangeAmount'', quote (str_lower L f) (str_lower L t) a)]"
    if "coerce_amount L amount = Inr a"
      and "check_pairs L a [(str_lower L f, str_lower L t)] fr = (Inr (), fr1)" for a fr1
  proof -
    have "snd (get_exchange_amount L (PStr f) (PStr t) amount fr) =
          snd (request L ''getExchangeAmount'' (quote (str_lower L f) (str_lower L t) a) fr1)"
      unfolding g1
      by (simp add: that(1)
          bnd_Inr [where m = "check_pairs L a [(str_lower L f, str_lower L t)]", OF that(2)]
          snd_bnd_lift del: check_pairs.simps)
    then show ?thesis by (simp add: request_new_calls quote_def)
  qed
  from n1 n2 g1 g2 d show ?thesis by (simp del: check_pairs.simps)
qed

theorem get_exchange_amount_bare_string_is_singleton_witness:
  "map (\<lambda>c. (rpc_method c, rpc_params c))
      (new_calls (snd (check_pairs demo_lib 50000000 [(''btc'', ''eth'')] demo_frame))
         (snd (get_exchange_amount demo_lib (PStr ''BTC'') (PStr ''eth'') (PStr ''0.5'') demo_frame))) =
     [(''getExchangeAmount'', quote ''btc'' ''eth'' 50000000)]
   \<and> map (\<lambda>c. (rpc_method c, rpc_params c))
      (new_calls (snd (check_pairs demo_lib 50000000 [(''btc'', ''eth'')] demo_frame))
         (snd (get_exchange_amount demo_lib (PList [PStr ''BTC'']) (PList [PStr ''eth'']) (PStr ''0.5'')
                demo_frame))) =
     [(''getExchangeAmount'', quote ''btc'' ''eth'' 50000000)]"
proof -
  have l: "str_lower demo_lib ''BTC'' = ''btc''" "str_lower demo_lib ''eth'' = ''eth''"
    by (simp_all add: demo_lib_def ascii_lower_def)
  have a: "coerce_amount demo_lib (PStr ''0.5'') = Inr 50000000"
    by (simp add: coerce_amount_def demo_lib_def demo_str_def demo_float_def)
  have cp: "check_pairs demo_lib 50000000 [(str_lower demo_lib ''BTC'', str_lower demo_lib ''eth'')]
              demo_frame =
      (Inr (), snd (check_pairs demo_lib 50000000 [(''btc'', ''eth'')] demo_frame))"
    unfolding l by (simp add: client_defs demo_defs act_defs)
  note r = get_exchange_amount_bare_string_is_singleton [of demo_lib "''BTC''" "''eth''" "PStr ''0.5''" demo_frame,
      THEN conjunct2, THEN conjunct2, THEN conjunct2, THEN conjunct2, rule_format,
      OF conjI [OF a cp]]
  from r show ?thesis by (simp only: l)
qed

text \<open>
  C10. When \<open>get_exchange_amount\<close> has validated its pairs and the \<open>getExchangeAmount\<close>
  request has come back with a result that is \<open>None\<close> (also when the field is absent) or a
  number or a boolean, the method raises \<open>TypeError\<close>: \<open>len(result)\<close> is taken before the
  result is looked at.
\<close>

theorem get_exchange_amount_sizeless_result_raises:
  assumes "normalize_codes L from_currency = Inr fs"
    and "normalize_codes L to_currency = Inr ts"
    and "coerce_amount L amount = Inr a"
    and "check_pairs L a (zip fs ts) fr = (Inr (), fr1)"
    and "length fs = length ts"
    and "request L ''getExchangeAmount'' (exchange_params fs ts a) fr1 = (Inr result, fr2)"
    and "result = PNone \<or> (\<exists>n. result = PInt n) \<or> (\<exists>x. result = PFloat x) \<or> (\<exists>b. result = PBool b)"
  shows "get_exchange_amount L from_currency to_currency amount fr = (Inl TypeError, fr2)"
  using assms by (auto simp add: get_exchange_amount_def act_defs round_result_def)

theorem get_exchange_amount_sizeless_result_raises_witness:
  "get_exchange_amount demo_lib (PStr ''BTC'') (PStr ''eth'') (PStr ''0.5'') demo_frame =
     (Inl TypeError,
      snd (request demo_lib ''getExchangeAmount'' (exchange_params [''btc''] [''eth''] 50000000)
             (snd (check_pairs demo_lib 50000000 [(''btc'', ''eth'')] demo_frame))))"
proof -
  have n1: "normalize_codes demo_lib (PStr ''BTC'') = Inr [''btc'']"
    by (simp add: normalize_codes_def demo_lib_def ascii_lower_def)
  have n2: "normalize_codes demo_lib (PStr ''eth'') = Inr [''eth'']"
    by (simp add: normalize_codes_def demo_lib_def ascii_lower_def)
  have a: "coerce_amount demo_lib (PStr ''0.5'') = Inr 50000000"
    by (simp add: coerce_amount_def demo_lib_def demo_str_def demo_float_def)
  have cp: "check_pairs demo_lib 50000000 (zip [''btc''] [''eth'']) demo_frame =
      (Inr (), snd (check_pairs demo_lib 50000000 [(''btc'', ''eth'')] demo_frame))"
    by (simp add: client_defs demo_defs act_defs)
  have rq: "request demo_lib ''getExchangeAmount'' (exchange_params [''btc''] [''eth''] 50000000)
       (snd (check_pairs demo_lib 50000000 [(''btc'', ''eth'')] demo_frame)) =
     (Inr PNone, snd (request demo_lib ''getExchangeAmount'' (exchange_params [''btc''] [''eth''] 50000000)
       (snd (check_pairs demo_lib 50000000 [(''btc'', ''eth'')] demo_frame))))"
    by (simp add: client_defs demo_defs act_defs)
  show ?thesis
    using get_exchange_amount_sizeless_result_raises [OF n1 n2 a cp _ rq] by simp
qed

text \<open>
  C5. In every call of \<open>create_transaction\<close> with \<open>extra_id\<close> absent, every request the call
  sends is a \<open>createTransaction\<close> whose params bind \<open>extraId\<close> to the string \<open>"null"\<close>; and
  the call does send one request whenever \<open>len\<close> accepts both refund arguments.
\<close>

theorem create_transaction_extra_id_null:
  "(\<forall>c \<in> set (new_calls fr (snd (create_transaction L fc tc addr amt PNone ra rei fr))).
      rpc_method c = ''createTransaction'' \<and>
      (\<exists>kvs. rpc_params c = PDict kvs \<and> map_of kvs ''extraId'' = Some (PStr ''null''))) \<and>
   (py_len ra \<noteq> Inl TypeError \<and> py_len rei \<noteq> Inl TypeError \<longrightarrow>
      length (new_calls fr (snd (create_transaction L fc tc addr amt PNone ra rei fr))) = 1)"
proof -
  let ?params = "[(''from'', fc), (''to'', tc), (''address'', addr), (''extraId'', PStr ''null''), (''amount'', amt)]"
  show ?thesis
  proof (cases "add_refund ''refundAddress'' ra ?params")
    case (Inl e)
    then have "py_len ra = Inl TypeError"
      by (auto simp add: add_refund_def split: sum.splits dest: py_len_error)
    with Inl show ?thesis by (simp add: create_transaction_def act_defs new_calls_def)
  next
    case p1: (Inr params1)
    then have k1: "map_of params1 ''extraId'' = Some (PStr ''null'')"
      using add_refund_keeps [OF p1, of "''extraId''"] by simp
    show ?thesis
    proof (cases "add_refund ''refundExtraId'' rei params1")
      case (Inl e)
      then have "py_len rei = Inl TypeError"
        by (auto simp add: add_refund_def split: sum.splits dest: py_len_error)
      with Inl p1 show ?thesis by (simp add: create_transaction_def act_defs new_calls_def)
    next
      case p2: (Inr params2)
      then have "map_of params2 ''extraId'' = Some (PStr ''null'')"
        using add_refund_keeps [OF p2, of "''extraId''"] k1 by simp
      with p1 p2 show ?thesis
        by (simp add: create_transaction_def act_defs request_new_calls)
    qed
  qed
qed

theorem create_transaction_extra_id_null_witness:
  "length (new_calls demo_frame (snd (create_transaction demo_lib (PStr ''btc'') (PStr ''eth'')
       (PStr ''addr'') (PStr ''0.5'') PNone (PStr ''refund'') (PStr []) demo_frame))) = 1
   \<and> map rpc_params (new_calls demo_frame (snd (create_transaction demo_lib (PStr ''btc'') (PStr ''eth'')
       (PStr ''addr'') (PStr ''0.5'') PNone (PStr ''refund'') (PStr []) demo_frame))) =
     [PDict [(''from'', PStr ''btc''), (''to'', PStr ''eth''), (''address'', PStr ''addr''),
             (''extraId'', PStr ''null''), (''amount'', PStr ''0.5''), (''refundAddress'', PStr ''refund'')]]"
proof -
  have l: "py_len (PStr ''refund'' :: int pyval) \<noteq> Inl TypeError \<and> py_len (PStr [] :: int pyval) \<noteq> Inl TypeError"
    by simp
  from create_transaction_extra_id_null [of demo_frame demo_lib "PStr ''btc''" "PStr ''eth''"
      "PStr ''addr''" "PStr ''0.5''" "PStr ''refund''" "PStr []"] l
  have "length (new_calls demo_frame (snd (create_transaction demo_lib (PStr ''btc'') (PStr ''eth'')
       (PStr ''addr'') (PStr ''0.5'') PNone (PStr ''refund'') (PStr []) demo_frame))) = 1"
    by blast
  moreover have "map rpc_params (new_calls demo_frame (snd (create_transaction demo_lib (PStr ''btc'') (PStr ''eth'')
       (PStr ''addr'') (PStr ''0.5'') PNone (PStr ''refund'') (PStr []) demo_frame))) =
     [PDict [(''from'', PStr ''btc''), (''to'', PStr ''eth''), (''address'', PStr ''addr''),
             (''extraId'', PStr ''null''), (''amount'', PStr ''0.5''), (''refundAddress'', PStr ''refund'')]]"
    by (simp add: create_transaction_def add_refund_def act_defs request_new_calls)
  ultimately show ?thesis by blast
qed

text \<open>
  C7. The request \<open>_request\<close> logs carries as body the serialization of the envelope, and
  as \<open>sign\<close> header the keyed hash of the encoding of that very body under the instance's
  secret. Two invocations with the same secret, command and params send the same body and
  the same signature, and a body that differs has a different encoding, hence a different
  input to the keyed hash.
\<close>

theorem request_signs_sent_bytes:
  "let c1 = last (net_log (snd (request L command params fr1)));
       c2 = last (net_log (snd (request L command params fr2)))
   in net_log (snd (request L command params fr1)) = net_log fr1 @ [c1]
      \<and> sent_data c1 = json_dumps L (envelope command params)
      \<and> map_of (sent_headers c1) ''sign'' =
          Some (hmac_sha512_hex L (self_secret fr1) (encode_utf8 (sent_data c1)))
      \<and> (self_secret fr1 = self_secret fr2 \<longrightarrow>
           sent_data c2 = sent_data c1 \<and> map_of (sent_headers c2) ''sign'' = map_of (sent_headers c1) ''sign'')
      \<and> (\<forall>data'. data' \<noteq> sent_data c1 \<longrightarrow> encode_utf8 data' \<noteq> encode_utf8 (sent_data c1))"
  by (auto simp add: request_log update_conv' Let_def dest: encode_utf8_inj)

theorem request_signs_sent_bytes_witness:
  "sent_data (last (net_log (snd (request demo_lib ''getStatus'' (PDict [(''id'', PStr ''tx1'')])
       (demo_frame\<lparr>self_currency_list := Some (PList [PStr ''btc''])\<rparr>)))))
     = sent_data (last (net_log (snd (request demo_lib ''getStatus'' (PDict [(''id'', PStr ''tx1'')]) demo_frame))))
   \<and> map_of (sent_headers (last (net_log (snd (request demo_lib ''getStatus'' (PDict [(''id'', PStr ''tx1'')])
       (demo_frame\<lparr>self_currency_list := Some (PList [PStr ''btc''])\<rparr>)))))) ''sign''
     = map_of (sent_headers (last (net_log (snd (request demo_lib ''getStatus'' (PDict [(''id'', PStr ''tx1'')]) demo_frame))))) ''sign''"
proof -
  have s: "self_secret demo_frame = self_secret (demo_frame\<lparr>self_currency_list := Some (PList [PStr ''btc''])\<rparr>)"
    by simp
  show ?thesis
    using request_signs_sent_bytes [of demo_lib "''getStatus''" "PDict [(''id'', PStr ''tx1'')]" demo_frame
        "demo_frame\<lparr>self_currency_list := Some (PList [PStr ''btc''])\<rparr>"] s
    unfolding Let_def by blast
qed

text \<open>
  C8. \<open>get_currencies\<close> sends a request only when the cached list is empty, and then one
  \<open>getCurrencies\<close>. With a non-empty cache it returns the cache and changes nothing; and
  once a call has returned a non-empty list, that list is cached and every later call
  returns it and leaves the state, the log of requests included, as it is.
\<close>

theorem get_currencies_cache:
  "(net_log (snd (get_currencies L fr)) \<noteq> net_log fr \<longrightarrow>
      py_len (currency_list fr) = Inr 0 \<and>
      map rpc_method (new_calls fr (snd (get_currencies L fr))) = [''getCurrencies''])
   \<and> (\<forall>n. py_len (currency_list fr) = Inr (Suc n) \<longrightarrow>
         get_currencies L fr = (Inr (currency_list fr), fr))
   \<and> (\<forall>v n fr'. get_currencies L fr = (Inr v, fr') \<and> py_len v = Inr (Suc n) \<longrightarrow>
         currency_list fr' = v \<and>
         (\<forall>k. ((\<lambda>f. snd (get_currencies L f)) ^^ k) fr' = fr' \<and> get_currencies L fr' = (Inr v, fr')))"
proof (intro conjI allI impI)
  assume "net_log (snd (get_currencies L fr)) \<noteq> net_log fr"
  then show "py_len (currency_list fr) = Inr 0"
    by (auto simp add: get_currencies_def split: sum.splits if_splits)
next
  assume a: "net_log (snd (get_currencies L fr)) \<noteq> net_log fr"
  then have z: "py_len (currency_list fr) = Inr 0"
    by (auto simp add: get_currencies_def split: sum.splits if_splits)
  have "net_log (snd (get_currencies L fr)) = net_log (snd (request L ''getCurrencies'' PNone fr))"
    using z by (simp add: get_currencies_def split: prod.splits sum.splits)
  then show "map rpc_method (new_calls fr (snd (get_currencies L fr))) = [''getCurrencies'']"
    by (simp add: new_calls_def request_log)
next
  fix n assume "py_len (currency_list fr) = Inr (Suc n)"
  then show "get_currencies L fr = (Inr (currency_list fr), fr)" by (rule get_currencies_cached)
next
  fix v n fr' assume a: "get_currencies L fr = (Inr v, fr') \<and> py_len v = Inr (Suc n)"
  then show "currency_list fr' = v" using get_currencies_result_cached by blast
next
  fix v n fr' k assume a: "get_currencies L fr = (Inr v, fr') \<and> py_len v = Inr (Suc n)"
  then have c: "currency_list fr' = v" using get_currencies_result_cached by blast
  with a have g: "get_currencies L fr' = (Inr v, fr')" using get_currencies_cached by metis
  then show "((\<lambda>f. snd (get_currencies L f)) ^^ k) fr' = fr'" by (induction k) simp_all
next
  fix v n fr' k assume a: "get_currencies L fr = (Inr v, fr') \<and> py_len v = Inr (Suc n)"
  then have c: "currency_list fr' = v" using get_currencies_result_cached by blast
  with a show "get_currencies L fr' = (Inr v, fr')" using get_currencies_cached by metis
qed

theorem get_currencies_cache_witness:
  "get_currencies demo_lib (snd (get_currencies demo_lib demo_frame)) =
     (Inr (PList [PStr ''btc'', PStr ''eth'', PStr ''ltc'']), snd (get_currencies demo_lib demo_frame))
   \<and> map rpc_method (new_calls demo_frame (snd (get_currencies demo_lib demo_frame))) = [''getCurrencies'']"
proof -
  have g: "get_currencies demo_lib demo_frame =
      (Inr (PList [PStr ''btc'', PStr ''eth'', PStr ''ltc'']), snd (get_currencies demo_lib demo_frame))"
    by (simp add: client_defs demo_defs)
  have l: "py_len (PList [PStr ''btc'', PStr ''eth'', PStr ''ltc''] :: int pyval) = Inr (Suc 2)"
    by simp
  have d: "net_log (snd (get_currencies demo_lib demo_frame)) \<noteq> net_log demo_frame"
    by (simp add: client_defs demo_defs)
  show ?thesis using get_currencies_cache [of demo_lib demo_frame] g l d by blast
qed

text \<open>
  C9. The claim is that constructing a second client leaves the first client's \<open>api-key\<close>
  header unchanged. \<open>_headers\<close> is one dict owned by the class, and \<open>__init__\<close> stores the key
  into it: after a second client is constructed with another key, the first client's
  header holds the second key, while the secrets stay one per instance.
\<close>

theorem second_client_replaces_api_key:
  "let w1 = snd (new_client ''key1'' ''secret1'' (fresh_world :: int world));
       w2 = snd (new_client ''key2'' ''secret2'' w1)
   in fst (new_client ''key1'' ''secret1'' (fresh_world :: int world)) = 0
      \<and> fst (new_client ''key2'' ''secret2'' w1) = 1
      \<and> api_key_of w1 0 = Some ''key1''
      \<and> api_key_of w2 0 = Some ''key2''
      \<and> map secret (clients w2) = [''secret1'', ''secret2'']"
  by (simp add: Let_def new_client_api_key)
     (simp add: new_client_def fresh_world_def encode_utf8_def utf8_char_def)

text \<open>
  C4. Let the first \<open>get_currencies\<close> of \<open>get_min_amount\<close> return the list \<open>cl\<close>. If both
  lower-cased codes are in \<open>cl\<close>, the method sends exactly one further request, a
  \<open>getMinAmount\<close> with \<open>{from, to}\<close> bound to the lower-cased codes, and returns its result
  parsed as a float and rounded to 8 digits (or the error of the request or of the
  parsing). If one of them is not in \<open>cl\<close>, it raises the invalid-currency error and has
  sent no \<open>getMinAmount\<close>.
\<close>

theorem get_min_amount_checks_then_dispatches:
  assumes "get_currencies L fr = (Inr (PList cl), fr1)"
  shows "(PStr (str_lower L f) \<in> set cl \<and> PStr (str_lower L t) \<in> set cl \<longrightarrow>
            get_min_amount L f t fr =
              (case request L ''getMinAmount''
                      (PDict [(''from'', PStr (str_lower L f)), (''to'', PStr (str_lower L t))]) fr1 of
                 (Inl e, fr2) \<Rightarrow> (Inl e, fr2)
               | (Inr r, fr2) \<Rightarrow>
                   (case py_float L r of Inl e \<Rightarrow> Inl e | Inr x \<Rightarrow> Inr (round8 L x), fr2))
            \<and> map (\<lambda>c. (rpc_method c, rpc_params c)) (new_calls fr1 (snd (get_min_amount L f t fr))) =
                [(''getMinAmount'', PDict [(''from'', PStr (str_lower L f)), (''to'', PStr (str_lower L t))])])
       \<and> (\<not> (PStr (str_lower L f) \<in> set cl \<and> PStr (str_lower L t) \<in> set cl) \<longrightarrow>
            get_min_amount L f t fr = (Inl (ValueError ''Invalid currency error.''), fr1)
            \<and> ''getMinAmount'' \<notin> set (map rpc_method (new_calls fr (snd (get_min_amount L f t fr)))))"
proof (intro conjI impI)
  assume m: "PStr (str_lower L f) \<in> set cl \<and> PStr (str_lower L t) \<in> set cl"
  then have "cl \<noteq> []" by auto
  from get_currencies_list_stable [OF assms this]
  have g: "get_currencies L fr1 = (Inr (PList cl), fr1)" .
  from m assms g
  show e: "get_min_amount L f t fr =
              (case request L ''getMinAmount''
                      (PDict [(''from'', PStr (str_lower L f)), (''to'', PStr (str_lower L t))]) fr1 of
                 (Inl e, fr2) \<Rightarrow> (Inl e, fr2)
               | (Inr r, fr2) \<Rightarrow>
                   (case py_float L r of Inl e \<Rightarrow> Inl e | Inr x \<Rightarrow> Inr (round8 L x), fr2))"
    by (simp add: get_min_amount_def Let_def bnd_Inr [where m = "get_currencies L", OF assms] bnd_Inr [where m = "get_currencies L", OF g] parse_min_amount
        min_amount_params_def)
  have "snd (get_min_amount L f t fr) =
        snd (request L ''getMinAmount'' (PDict [(''from'', PStr (str_lower L f)), (''to'', PStr (str_lower L t))]) fr1)"
    unfolding e by (simp split: prod.splits sum.splits)
  then show "map (\<lambda>c. (rpc_method c, rpc_params c)) (new_calls fr1 (snd (get_min_amount L f t fr))) =
                [(''getMinAmount'', PDict [(''from'', PStr (str_lower L f)), (''to'', PStr (str_lower L t))])]"
    by (simp add: request_new_calls)
next
  assume m: "\<not> (PStr (str_lower L f) \<in> set cl \<and> PStr (str_lower L t) \<in> set cl)"
  show e: "get_min_amount L f t fr = (Inl (ValueError ''Invalid currency error.''), fr1)"
  proof (cases "PStr (str_lower L f) \<in> set cl")
    case False
    then show ?thesis
      by (simp add: get_min_amount_def Let_def bnd_Inr [where m = "get_currencies L", OF assms] throw_def invalid_currency_def)
  next
    case True
    then have "cl \<noteq> []" by auto
    from get_currencies_list_stable [OF assms this]
    have g: "get_currencies L fr1 = (Inr (PList cl), fr1)" .
    from True m show ?thesis
      by (simp add: get_min_amount_def Let_def bnd_Inr [where m = "get_currencies L", OF assms] bnd_Inr [where m = "get_currencies L", OF g] throw_def
          invalid_currency_def)
  qed
  have "dispatched_only {''getCurrencies''} fr (snd (get_currencies L fr))"
    by (rule get_currencies_dispatched) simp
  with assms e show "''getMinAmount'' \<notin> set (map rpc_method (new_calls fr (snd (get_min_amount L f t fr))))"
    by (auto simp add: dispatched_only_def)
qed

theorem get_min_amount_checks_then_dispatches_witness:
  "get_min_amount demo_lib ''BTC'' ''ETH'' demo_frame =
     (Inr 100000,
      snd (request demo_lib ''getMinAmount'' (PDict [(''from'', PStr ''btc''), (''to'', PStr ''eth'')])
             (snd (get_currencies demo_lib demo_frame))))
   \<and> get_min_amount demo_lib ''BTC'' ''XRP'' demo_frame =
       (Inl (ValueError ''Invalid currency error.''), snd (get_currencies demo_lib demo_frame))"
proof -
  have g: "get_currencies demo_lib demo_frame =
      (Inr (PList [PStr ''btc'', PStr ''eth'', PStr ''ltc'']), snd (get_currencies demo_lib demo_frame))"
    by (simp add: client_defs demo_defs)
  have l: "str_lower demo_lib ''BTC'' = ''btc''" "str_lower demo_lib ''ETH'' = ''eth''"
    "str_lower demo_lib ''XRP'' = ''xrp''"
    by (simp_all add: demo_lib_def ascii_lower_def)
  have r: "request demo_lib ''getMinAmount'' (PDict [(''from'', PStr ''btc''), (''to'', PStr ''eth'')])
             (snd (get_currencies demo_lib demo_frame)) =
           (Inr (PStr ''0.001''), snd (request demo_lib ''getMinAmount'' (PDict [(''from'', PStr ''btc''), (''to'', PStr ''eth'')])
             (snd (get_currencies demo_lib demo_frame))))"
    by (simp add: client_defs demo_defs)
  have f: "py_float demo_lib (PStr ''0.001'') = Inr 100000" "round8 demo_lib 100000 = 100000"
    by (simp_all add: demo_lib_def demo_float_def)
  have m1: "PStr (str_lower demo_lib ''BTC'') \<in> set [PStr ''btc'', PStr ''eth'', PStr ''ltc''] \<and>
            PStr (str_lower demo_lib ''ETH'') \<in> set [PStr ''btc'', PStr ''eth'', PStr ''ltc'' :: int pyval]"
    by (simp add: l)
  have m2: "\<not> (PStr (str_lower demo_lib ''BTC'') \<in> set [PStr ''btc'', PStr ''eth'', PStr ''ltc''] \<and>
            PStr (str_lower demo_lib ''XRP'') \<in> set [PStr ''btc'', PStr ''eth'', PStr ''ltc'' :: int pyval])"
    by (simp add: l)
  from get_min_amount_checks_then_dispatches [OF g, of "''BTC''" "''ETH''"] m1
  have "get_min_amount demo_lib ''BTC'' ''ETH'' demo_frame =
              (case request demo_lib ''getMinAmount''
                      (PDict [(''from'', PStr (str_lower demo_lib ''BTC'')), (''to'', PStr (str_lower demo_lib ''ETH''))])
                      (snd (get_currencies demo_lib demo_frame)) of
                 (Inl e, fr2) \<Rightarrow> (Inl e, fr2)
               | (Inr r, fr2) \<Rightarrow>
                   (case py_float demo_lib r of Inl e \<Rightarrow> Inl e | Inr x \<Rightarrow> Inr (round8 demo_lib x), fr2))"
    by blast
  then have a: "get_min_amount demo_lib ''BTC'' ''ETH'' demo_frame =
     (Inr 100000,
      snd (request demo_lib ''getMinAmount'' (PDict [(''from'', PStr ''btc''), (''to'', PStr ''eth'')])
             (snd (get_currencies demo_lib demo_frame))))"
    unfolding l by (subst (asm) r) (simp add: demo_lib_def demo_float_def)
  from get_min_amount_checks_then_dispatches [OF g, of "''BTC''" "''XRP''"] m2
  have b: "get_min_amount demo_lib ''BTC'' ''XRP'' demo_frame =
       (Inl (ValueError ''Invalid currency error.''), snd (get_currencies demo_lib demo_frame))"
    by blast
  from a b show ?thesis by blast
qed

text \<open>
  C2. The claim is that sequences of different lengths make \<open>get_exchange_amount\<close> fail
  with the size-mismatch error before any request is sent. The loop over the zipped pairs
  runs first: with \<open>["btc", "eth"]\<close> against \<open>["eth"]\<close> a \<open>getCurrencies\<close> and a
  \<open>getMinAmount\<close> request are sent before the size-mismatch error is raised, and with
  \<open>["xrp", "eth"]\<close> against \<open>["eth"]\<close> the error raised is the invalid-currency one.
\<close>

theorem size_mismatch_not_before_network_counterexample:
  "normalize_codes demo_lib (PList [PStr ''btc'', PStr ''eth'']) = Inr [''btc'', ''eth'']
   \<and> normalize_codes demo_lib (PList [PStr ''xrp'', PStr ''eth'']) = Inr [''xrp'', ''eth'']
   \<and> normalize_codes demo_lib (PList [PStr ''eth'']) = Inr [''eth'']
   \<and> net_log demo_frame = []
   \<and> fst (get_exchange_amount demo_lib (PList [PStr ''btc'', PStr ''eth'']) (PList [PStr ''eth''])
            (PStr ''0.5'') demo_frame) = Inl size_mismatch
   \<and> map rpc_method (net_log (snd (get_exchange_amount demo_lib (PList [PStr ''btc'', PStr ''eth''])
            (PList [PStr ''eth'']) (PStr ''0.5'') demo_frame))) = [''getCurrencies'', ''getMinAmount'']
   \<and> fst (get_exchange_amount demo_lib (PList [PStr ''xrp'', PStr ''eth'']) (PList [PStr ''eth''])
            (PStr ''0.5'') demo_frame) = Inl invalid_currency"
  by (simp add: client_defs demo_defs act_defs)

text \<open>
  C2, as the code has it. When the normalized sequences differ in length the call fails and
  sends no \<open>getExchangeAmount\<close>: the only requests it can have sent are the
  \<open>getCurrencies\<close> and \<open>getMinAmount\<close> lookups of the zipped pairs. The error is the one
  of the coercion of the amount when that fails, with nothing sent; else the one of the
  loop over the zipped pairs when that fails; else the size-mismatch error.
\<close>

theorem size_mismatch_after_validation:
  assumes n1: "normalize_codes L from_currency = Inr fs"
    and n2: "normalize_codes L to_currency = Inr ts"
    and len: "length fs \<noteq> length ts"
  shows "(\<exists>e. fst (get_exchange_amount L from_currency to_currency amount fr) = Inl e)
       \<and> dispatched_only {''getCurrencies'', ''getMinAmount''} fr
            (snd (get_exchange_amount L from_currency to_currency amount fr))
       \<and> ''getExchangeAmount'' \<notin>
            set (map rpc_method (new_calls fr (snd (get_exchange_amount L from_currency to_currency amount fr))))
       \<and> (\<forall>a fr1. coerce_amount L amount = Inr a \<and> check_pairs L a (zip fs ts) fr = (Inr (), fr1) \<longrightarrow>
            get_exchange_amount L from_currency to_currency amount fr = (Inl size_mismatch, fr1))
       \<and> (\<forall>e. coerce_amount L amount = Inl e \<longrightarrow>
            get_exchange_amount L from_currency to_currency amount fr = (Inl e, fr))
       \<and> (\<forall>a e fr1. coerce_amount L amount = Inr a \<and> check_pairs L a (zip fs ts) fr = (Inl e, fr1) \<longrightarrow>
            get_exchange_amount L from_currency to_currency amount fr = (Inl e, fr1))"
proof -
  let ?g = "get_exchange_amount L from_currency to_currency amount fr"
  have main: "(\<exists>e. fst ?g = Inl e) \<and> dispatched_only {''getCurrencies'', ''getMinAmount''} fr (snd ?g)
       \<and> (\<forall>a fr1. coerce_amount L amount = Inr a \<and> check_pairs L a (zip fs ts) fr = (Inr (), fr1) \<longrightarrow>
            ?g = (Inl size_mismatch, fr1))
       \<and> (\<forall>e. coerce_amount L amount = Inl e \<longrightarrow> ?g = (Inl e, fr))
       \<and> (\<forall>a e fr1. coerce_amount L amount = Inr a \<and> check_pairs L a (zip fs ts) fr = (Inl e, fr1) \<longrightarrow>
            ?g = (Inl e, fr1))"
  proof (cases "coerce_amount L amount")
    case (Inl e)
    then have "?g = (Inl e, fr)" by (simp add: get_exchange_amount_def n1 n2)
    with Inl show ?thesis by (simp add: dispatched_only_refl)
  next
    case (Inr a)
    have d: "dispatched_only {''getCurrencies'', ''getMinAmount''} fr (snd (check_pairs L a (zip fs ts) fr))"
      by (rule check_pairs_dispatched) simp_all
    obtain r fr1 where c: "check_pairs L a (zip fs ts) fr = (r, fr1)" by (cases "check_pairs L a (zip fs ts) fr")
    show ?thesis
    proof (cases r)
      case (Inl e)
      with c Inr have "?g = (Inl e, fr1)"
        by (simp add: get_exchange_amount_def n1 n2 bnd_Inl [where m = "check_pairs L a (zip fs ts)"])
      with c d Inl Inr show ?thesis by simp
    next
      case r: (Inr u)
      with c Inr len have "?g = (Inl size_mismatch, fr1)"
        by (simp add: get_exchange_amount_def n1 n2 bnd_Inr [where m = "check_pairs L a (zip fs ts)"] throw_def)
      with c d r Inr show ?thesis by simp
    qed
  qed
  then have "''getExchangeAmount'' \<notin> set (map rpc_method (new_calls fr (snd ?g)))"
    by (auto simp add: dispatched_only_def)
  with main show ?thesis by blast
qed

theorem size_mismatch_after_validation_witness:
  "get_exchange_amount demo_lib (PList [PStr ''btc'', PStr ''eth'']) (PList [PStr ''eth''])
            (PStr ''0.5'') demo_frame =
     (Inl size_mismatch, snd (check_pairs demo_lib 50000000 [(''btc'', ''eth'')] demo_frame))
   \<and> ''getExchangeAmount'' \<notin>
        set (map rpc_method (new_calls demo_frame (snd (get_exchange_amount demo_lib
             (PList [PStr ''btc'', PStr ''eth'']) (PList [PStr ''eth'']) (PStr ''0.5'') demo_frame))))
   \<and> get_exchange_amount demo_lib (PList [PStr ''btc'', PStr ''eth'']) (PList [PStr ''eth''])
            (PStr ''abc'') demo_frame = (Inl LibValueError, demo_frame)
   \<and> get_exchange_amount demo_lib (PList [PStr ''xrp'', PStr ''eth'']) (PList [PStr ''eth''])
            (PStr ''0.5'') demo_frame =
     (Inl invalid_currency, snd (check_pairs demo_lib 50000000 [(''xrp'', ''eth'')] demo_frame))"
proof -
  have n1: "normalize_codes demo_lib (PList [PStr ''btc'', PStr ''eth'']) = Inr [''btc'', ''eth'']"
    by (simp add: normalize_codes_def demo_lib_def ascii_lower_def)
  have n1x: "normalize_codes demo_lib (PList [PStr ''xrp'', PStr ''eth'']) = Inr [''xrp'', ''eth'']"
    by (simp add: normalize_codes_def demo_lib_def ascii_lower_def)
  have n2: "normalize_codes demo_lib (PList [PStr ''eth'']) = Inr [''eth'']"
    by (simp add: normalize_codes_def demo_lib_def ascii_lower_def)
  have len: "length [''btc'', ''eth''] \<noteq> length [''eth'']" by simp
  have lenx: "length [''xrp'', ''eth''] \<noteq> length [''eth'']" by simp
  have a: "coerce_amount demo_lib (PStr ''0.5'') = Inr 50000000"
    by (simp add: coerce_amount_def demo_lib_def demo_str_def demo_float_def)
  have b: "coerce_amount demo_lib (PStr ''abc'') = Inl LibValueError"
    by (simp add: coerce_amount_def demo_lib_def demo_str_def demo_float_def)
  have cp: "check_pairs demo_lib 50000000 (zip [''btc'', ''eth''] [''eth'']) demo_frame =
      (Inr (), snd (check_pairs demo_lib 50000000 [(''btc'', ''eth'')] demo_frame))"
    by (simp add: client_defs demo_defs act_defs)
  have cpx: "check_pairs demo_lib 50000000 (zip [''xrp'', ''eth''] [''eth'']) demo_frame =
      (Inl invalid_currency, snd (check_pairs demo_lib 50000000 [(''xrp'', ''eth'')] demo_frame))"
    by (simp add: client_defs demo_defs act_defs)
  from size_mismatch_after_validation [OF n1 n2 len, of "PStr ''0.5''" demo_frame] a cp
  have 1: "get_exchange_amount demo_lib (PList [PStr ''btc'', PStr ''eth'']) (PList [PStr ''eth''])
            (PStr ''0.5'') demo_frame =
     (Inl size_mismatch, snd (check_pairs demo_lib 50000000 [(''btc'', ''eth'')] demo_frame))
   \<and> ''getExchangeAmount'' \<notin>
        set (map rpc_method (new_calls demo_frame (snd (get_exchange_amount demo_lib
             (PList [PStr ''btc'', PStr ''eth'']) (PList [PStr ''eth'']) (PStr ''0.5'') demo_frame))))"
    by blast
  from size_mismatch_after_validation [OF n1 n2 len, of "PStr ''abc''" demo_frame] b
  have 2: "get_exchange_amount demo_lib (PList [PStr ''btc'', PStr ''eth'']) (PList [PStr ''eth''])
            (PStr ''abc'') demo_frame = (Inl LibValueError, demo_frame)"
    by blast
  from size_mismatch_after_validation [OF n1x n2 lenx, of "PStr ''0.5''" demo_frame] a cpx
  have 3: "get_exchange_amount demo_lib (PList [PStr ''xrp'', PStr ''eth'']) (PList [PStr ''eth''])
            (PStr ''0.5'') demo_frame =
     (Inl invalid_currency, snd (check_pairs demo_lib 50000000 [(''xrp'', ''eth'')] demo_frame))"
    by blast
  from 1 2 3 show ?thesis by blast
qed

text \<open>
  C3. The claim is that an amount strictly less than the minimum amount of some pair makes
  \<open>get_exchange_amount\<close> raise the below-minimum error and send no \<open>getExchangeAmount\<close>.
  The loop compares the amount with what \<open>get_min_amount\<close> returns, the minimum rounded to
  8 digits: with a remote minimum of \<open>0.000000004\<close>, which rounds to zero, and the amount
  \<open>0.000000001\<close>, no error is raised and \<open>getExchangeAmount\<close> is sent.
\<close>

theorem below_unrounded_minimum_counterexample:
  "coerce_amount fine_lib (PStr ''0.000000001'') = Inr 1
   \<and> fst (request fine_lib ''getMinAmount'' (min_amount_params ''btc'' ''eth'') demo_frame) =
       Inr (PStr ''0.000000004'')
   \<and> py_float fine_lib (PStr ''0.000000004'') = Inr 4
   \<and> float_less fine_lib 1 4
   \<and> fst (get_exchange_amount fine_lib (PStr ''btc'') (PStr ''eth'') (PStr ''0.000000001'') demo_frame) =
       Inr (PFloat 500000000)
   \<and> map rpc_method (net_log (snd (get_exchange_amount fine_lib (PStr ''btc'') (PStr ''eth'')
         (PStr ''0.000000001'') demo_frame))) = [''getCurrencies'', ''getMinAmount'', ''getExchangeAmount'']"
  by (simp add: client_defs demo_defs fine_defs act_defs)

text \<open>
  C3, as the code has it. Let the codes be valid, that is every zipped pair of normalized
  codes be in the list \<open>get_currencies\<close> returns, and let the remote service report the
  minimum amounts \<open>m\<close>. If the coerced amount is strictly less than the minimum rounded to
  8 digits of some zipped pair, then \<open>get_exchange_amount\<close> raises the below-minimum error
  naming the rounded minimum and the from-currency of the first such pair, and it sends no
  \<open>getExchangeAmount\<close>. Lower-casing is taken to be idempotent, as the codes are lower-cased
  a second time inside \<open>get_min_amount\<close>.
\<close>

theorem below_minimum_raised_before_quote:
  assumes idem: "\<And>s. str_lower L (str_lower L s) = str_lower L s"
    and n1: "normalize_codes L from_currency = Inr fs"
    and n2: "normalize_codes L to_currency = Inr ts"
    and amt: "coerce_amount L amount = Inr a"
    and cur: "get_currencies L fr = (Inr (PList cl), fr0)"
    and valid: "\<forall>p\<in>set (zip fs ts). PStr (fst p) \<in> set cl \<and> PStr (snd p) \<in> set cl"
    and svc: "min_amount_service L m"
    and ex: "\<exists>p\<in>set (zip fs ts). below L m a p"
  shows "(\<exists>p. find (below L m a) (zip fs ts) = Some p \<and>
              fst (get_exchange_amount L from_currency to_currency amount fr) =
                Inl (below_minimum L (round8 L (m (fst p) (snd p))) (fst p)))
       \<and> ''getExchangeAmount'' \<notin>
            set (map rpc_method (new_calls fr (snd (get_exchange_amount L from_currency to_currency amount fr))))"
proof -
  let ?g = "get_exchange_amount L from_currency to_currency amount fr"
  let ?ps = "zip fs ts"
  from ex obtain p where p: "find (below L m a) ?ps = Some p"
    by (cases "find (below L m a) ?ps") (auto simp add: find_None_iff)
  from ex obtain q qs where ps: "?ps = q # qs" by (cases ?ps) auto
  with valid have "PStr (fst q) \<in> set cl" by simp
  then have ne: "cl \<noteq> []" by auto
  obtain n where "py_len (PList cl :: 'a pyval) = Inr (Suc n)" using ne by (cases cl) simp_all
  from get_currencies_result_cached [OF cur this] have cache: "currency_list fr0 = PList cl" .
  have fixed: "\<forall>p\<in>set ?ps. str_lower L (fst p) = fst p \<and> str_lower L (snd p) = snd p"
    using normalize_codes_fixed [OF idem n1] normalize_codes_fixed [OF idem n2]
    by (auto dest: set_zip_leftD set_zip_rightD)
  have "check_pairs L a ?ps fr = check_pairs L a ?ps fr0"
    unfolding ps by (rule check_pairs_after_get_currencies [OF cur ne])
  with check_pairs_below [OF svc cache valid fixed p]
  have e: "fst (check_pairs L a ?ps fr) = Inl (below_minimum L (round8 L (m (fst p) (snd p))) (fst p))"
    by simp
  then have eq: "check_pairs L a ?ps fr =
      (Inl (below_minimum L (round8 L (m (fst p) (snd p))) (fst p)), snd (check_pairs L a ?ps fr))"
    by (simp add: prod_eq_iff)
  have g: "?g = (Inl (below_minimum L (round8 L (m (fst p) (snd p))) (fst p)), snd (check_pairs L a ?ps fr))"
    by (simp add: get_exchange_amount_def n1 n2 amt bnd_Inl [where m = "check_pairs L a (zip fs ts)", OF eq])
  have "dispatched_only {''getCurrencies'', ''getMinAmount''} fr (snd (check_pairs L a ?ps fr))"
    by (rule check_pairs_dispatched) simp_all
  with g have "''getExchangeAmount'' \<notin> set (map rpc_method (new_calls fr (snd ?g)))"
    by (auto simp add: dispatched_only_def)
  with p g show ?thesis by simp
qed

theorem below_minimum_raised_before_quote_witness:
  "fst (get_exchange_amount fine_lib (PList [PStr ''BTC'', PStr ''ETH'']) (PList [PStr ''eth'', PStr ''btc''])
         (PStr ''0.000000001'') demo_frame) =
     Inl (ValueError ''Min. mount is amount 0.00000002 ETH.'')
   \<and> find (below fine_lib fine_minimum 1) [(''btc'', ''eth''), (''eth'', ''btc'')] = Some (''eth'', ''btc'')
   \<and> round8 fine_lib (fine_minimum ''btc'' ''eth'') = 0
   \<and> round8 fine_lib (fine_minimum ''eth'' ''btc'') = 20
   \<and> ''getExchangeAmount'' \<notin>
        set (map rpc_method (new_calls demo_frame (snd (get_exchange_amount fine_lib
             (PList [PStr ''BTC'', PStr ''ETH'']) (PList [PStr ''eth'', PStr ''btc''])
             (PStr ''0.000000001'') demo_frame))))"
proof -
  have idem: "\<And>s. str_lower fine_lib (str_lower fine_lib s) = str_lower fine_lib s"
    by (simp add: fine_lib_def demo_lib_def ascii_lower_idem)
  have n1: "normalize_codes fine_lib (PList [PStr ''BTC'', PStr ''ETH'']) = Inr [''btc'', ''eth'']"
    by (simp add: normalize_codes_def fine_lib_def demo_lib_def ascii_lower_def)
  have n2: "normalize_codes fine_lib (PList [PStr ''eth'', PStr ''btc'']) = Inr [''eth'', ''btc'']"
    by (simp add: normalize_codes_def fine_lib_def demo_lib_def ascii_lower_def)
  have a: "coerce_amount fine_lib (PStr ''0.000000001'') = Inr 1"
    by (simp add: coerce_amount_def fine_defs demo_lib_def demo_str_def)
  have g: "get_currencies fine_lib demo_frame =
      (Inr (PList [PStr ''btc'', PStr ''eth'', PStr ''ltc'']), snd (get_currencies fine_lib demo_frame))"
    by (simp add: client_defs demo_defs fine_defs)
  have v: "\<forall>p\<in>set (zip [''btc'', ''eth''] [''eth'', ''btc'']).
      PStr (fst p) \<in> set [PStr ''btc'', PStr ''eth'', PStr ''ltc'' :: int pyval] \<and>
      PStr (snd p) \<in> set [PStr ''btc'', PStr ''eth'', PStr ''ltc'']"
    by simp
  have f: "find (below fine_lib fine_minimum 1) [(''btc'', ''eth''), (''eth'', ''btc'')] = Some (''eth'', ''btc'')"
    by (simp add: below_def fine_defs demo_lib_def)
  have z: "zip [''btc'', ''eth''] [''eth'', ''btc''] = [(''btc'', ''eth''), (''eth'', ''btc'')]"
    by simp
  have b: "\<exists>p\<in>set (zip [''btc'', ''eth''] [''eth'', ''btc'']). below fine_lib fine_minimum 1 p"
    by (simp add: below_def fine_defs demo_lib_def)
  have r: "round8 fine_lib (fine_minimum ''btc'' ''eth'') = 0" "round8 fine_lib (fine_minimum ''eth'' ''btc'') = 20"
    by (simp_all add: fine_defs demo_lib_def)
  have m: "below_minimum fine_lib (round8 fine_lib (fine_minimum ''eth'' ''btc'')) ''eth'' =
      ValueError ''Min. mount is amount 0.00000002 ETH.''"
    by (simp add: below_minimum_def fine_defs demo_lib_def ascii_upper_def)
  from below_minimum_raised_before_quote [OF idem n1 n2 a g v fine_service b]
  obtain p where p: "find (below fine_lib fine_minimum 1) (zip [''btc'', ''eth''] [''eth'', ''btc'']) = Some p"
    and e: "fst (get_exchange_amount fine_lib (PList [PStr ''BTC'', PStr ''ETH''])
               (PList [PStr ''eth'', PStr ''btc'']) (PStr ''0.000000001'') demo_frame) =
              Inl (below_minimum fine_lib (round8 fine_lib (fine_minimum (fst p) (snd p))) (fst p))"
    and d: "''getExchangeAmount'' \<notin>
        set (map rpc_method (new_calls demo_frame (snd (get_exchange_amount fine_lib
             (PList [PStr ''BTC'', PStr ''ETH'']) (PList [PStr ''eth'', PStr ''btc''])
             (PStr ''0.000000001'') demo_frame))))"
    by blast
  from p f have "p = (''eth'', ''btc'')" by (simp only: z option.inject)
  with e m d f r show ?thesis by (simp only: fst_conv snd_conv simp_thms)
qed

end
